theory Spec2Isabelle
  imports Main
begin

section \<open>Errors\<close>

text \<open>
  A Go \<open>error\<close> is a value. The backend client hands back errors that carry a
  classification; \<open>fmt.Errorf\<close> builds a fresh error from a format string and its
  arguments (all uses in the source are \<open>%s\<close>, \<open>%q\<close> and \<open>%v\<close>, none is \<open>%w\<close>), which is
  kept here as the format together with the argument list. A run-time panic (nil
  dereference) ends the call and is a constructor of its own, and so is an error of a
  library (JSON decoding, provider-id parsing).
\<close>

datatype errclass = NotFoundC | RetryableC | OtherC

datatype error =
    BackendErr errclass string
  | ErrWaitTimeout
  | Panic string
  | LibErr string
  | Errorf string "fmtarg list"
and fmtarg = ArgS string | ArgE error

text \<open>
  Modelled from the spec: \<open>capoerrors.IsNotFound\<close> and \<open>capoerrors.IsRetryable\<close>
  (package \<open>pkg/utils/errors\<close>) are the classification of backend errors as
  not-found, retryable or other; an error built by the orchestrator itself is neither.
\<close>

fun IsNotFound :: "error \<Rightarrow> bool" where
  "IsNotFound (BackendErr c m) = (c = NotFoundC)"
| "IsNotFound ErrWaitTimeout = False"
| "IsNotFound (Panic m) = False"
| "IsNotFound (LibErr m) = False"
| "IsNotFound (Errorf f as) = False"

fun IsRetryable :: "error \<Rightarrow> bool" where
  "IsRetryable (BackendErr c m) = (c = RetryableC)"
| "IsRetryable ErrWaitTimeout = False"
| "IsRetryable (Panic m) = False"
| "IsRetryable (LibErr m) = False"
| "IsRetryable (Errorf f as) = False"

section \<open>Tag de-duplication\<close>

text \<open>
  \<open>deduplicate\<close> walks the slice once, with the slice \<open>unique\<close> built so far and the
  map \<open>set\<close> of the strings already seen.
\<close>

fun deduplicate_loop :: "string list \<Rightarrow> string list \<Rightarrow> (string \<rightharpoonup> bool) \<Rightarrow> string list" where
  "deduplicate_loop [] unique seen = unique"
| "deduplicate_loop (s # rest) unique seen =
     (case seen s of
        None \<Rightarrow> deduplicate_loop rest (unique @ [s]) (seen(s \<mapsto> True))
      | Some ok \<Rightarrow> deduplicate_loop rest unique seen)"

definition deduplicate :: "string list \<Rightarrow> string list" where
  "deduplicate sequence = deduplicate_loop sequence [] Map.empty"

text \<open>
  The specification's wording, as a function of its own: the first occurrence of each
  string stays where it is and every later occurrence is removed.
\<close>

function keep_first :: "'a list \<Rightarrow> 'a list" where
  "keep_first [] = []"
| "keep_first (x # xs) = x # keep_first (removeAll x xs)"
  by pat_completeness auto
termination
  by (relation "measure length") (auto simp: less_Suc_eq_le)

section \<open>The create payload and its decorators\<close>

record RootVolume =
  RootVolume_SourceType :: string
  RootVolume_SourceUUID :: string
  RootVolume_DeviceType :: string
  RootVolume_Size :: int

datatype DestinationType = DestinationLocal | DestinationVolume

record BlockDevice =
  BlockDevice_SourceType :: string
  BlockDevice_BootIndex :: int
  BlockDevice_UUID :: string
  BlockDevice_DeleteOnTermination :: bool
  BlockDevice_DestinationType :: DestinationType
  BlockDevice_VolumeSize :: int
  BlockDevice_DeviceType :: string

text \<open>\<open>servers.Network\<close>: only the port field is ever set.\<close>

record ServerNetwork =
  ServerNetwork_Port :: string

record CreateOpts =
  CreateOpts_Name :: string
  CreateOpts_ImageRef :: string
  CreateOpts_FlavorRef :: string
  CreateOpts_AvailabilityZone :: string
  CreateOpts_Networks :: "ServerNetwork list"
  CreateOpts_UserData :: string
  CreateOpts_SecurityGroups :: "string list"
  CreateOpts_Tags :: "string list"
  CreateOpts_Metadata :: "string \<rightharpoonup> string"
  CreateOpts_ConfigDrive :: "bool option"
  CreateOpts_AccessIPv4 :: string

text \<open>
  \<open>servers.CreateOptsBuilder\<close> is an interface; the values that reach it here are the
  base options and the three extension structs that wrap another builder.
\<close>

datatype CreateOptsBuilder =
    Base CreateOpts
  | BootFromVolumeExt CreateOptsBuilder "BlockDevice list"
  | SchedulerHintsExt CreateOptsBuilder string
  | KeypairExt CreateOptsBuilder string

definition applyRootVolume :: "CreateOptsBuilder \<Rightarrow> RootVolume option \<Rightarrow> CreateOptsBuilder" where
  "applyRootVolume opts rootVolume =
     (case rootVolume of
        None \<Rightarrow> opts
      | Some rv \<Rightarrow>
          if RootVolume_Size rv \<noteq> 0 then
            BootFromVolumeExt opts
              [\<lparr>BlockDevice_SourceType = RootVolume_SourceType rv,
                BlockDevice_BootIndex = 0,
                BlockDevice_UUID = RootVolume_SourceUUID rv,
                BlockDevice_DeleteOnTermination = True,
                BlockDevice_DestinationType = DestinationVolume,
                BlockDevice_VolumeSize = RootVolume_Size rv,
                BlockDevice_DeviceType = RootVolume_DeviceType rv\<rparr>]
          else opts)"

definition applyServerGroupID :: "CreateOptsBuilder \<Rightarrow> string \<Rightarrow> CreateOptsBuilder" where
  "applyServerGroupID opts serverGroupID =
     (if serverGroupID \<noteq> [] then SchedulerHintsExt opts serverGroupID else opts)"

text \<open>
  What a builder amounts to once every layer has been merged into the request: the base
  options, the block devices, the scheduler group and the key name.
\<close>

fun base_opts :: "CreateOptsBuilder \<Rightarrow> CreateOpts" where
  "base_opts (Base c) = c"
| "base_opts (BootFromVolumeExt b ds) = base_opts b"
| "base_opts (SchedulerHintsExt b g) = base_opts b"
| "base_opts (KeypairExt b k) = base_opts b"

fun block_devices :: "CreateOptsBuilder \<Rightarrow> BlockDevice list option" where
  "block_devices (Base c) = None"
| "block_devices (BootFromVolumeExt b ds) = Some ds"
| "block_devices (SchedulerHintsExt b g) = block_devices b"
| "block_devices (KeypairExt b k) = block_devices b"

fun scheduler_group :: "CreateOptsBuilder \<Rightarrow> string option" where
  "scheduler_group (Base c) = None"
| "scheduler_group (BootFromVolumeExt b ds) = scheduler_group b"
| "scheduler_group (SchedulerHintsExt b g) = Some g"
| "scheduler_group (KeypairExt b k) = scheduler_group b"

section \<open>Backend resources\<close>

record IP =
  IP_SubnetID :: string
  IP_IPAddress :: string

record Port =
  Port_ID :: string
  Port_Name :: string
  Port_NetworkID :: string
  Port_FixedIPs :: "IP list"

record PortCreateOpts =
  PortCreateOpts_Name :: string
  PortCreateOpts_NetworkID :: string
  PortCreateOpts_SecurityGroups :: "string list option"
  PortCreateOpts_Description :: string
  PortCreateOpts_FixedIPs :: "IP list"

record Trunk =
  Trunk_ID :: string
  Trunk_Name :: string
  Trunk_PortID :: string

record Image =
  Image_ID :: string
  Image_Name :: string

record Interface =
  Interface_PortID :: string
  Interface_NetID :: string

text \<open>
  The address table of a server is untyped JSON keyed by network name. What the two
  decoding steps of \<open>GetIPFromInstance\<close> make of a value is kept as data: the value
  is a list or it is not, and an element of the list decodes to an interface (address,
  whether its version is 4, type) or it does not.
\<close>

datatype address = NotAnInterface | NetworkInterface string bool string

datatype address_list = NotAList | AddressList "address list"

record Server =
  Server_ID :: string
  Server_Name :: string
  Server_KeyName :: string
  Server_Status :: string
  Server_AccessIPv4 :: string
  Server_Addresses :: "(string \<times> address_list) list"

section \<open>The logical descriptors\<close>

record Subnet =
  Subnet_ID :: string

record Network =
  Network_ID :: string
  Network_Subnet :: "Subnet option"

text \<open>
  The filters are the list options of the backend (\<open>networks.ListOpts\<close>,
  \<open>subnets.ListOpts\<close>, \<open>groups.ListOpts\<close>); of their many fields those the code
  writes are kept, with the name and the project beside them.
\<close>

record NetworkFilter =
  NetworkFilter_ID :: string
  NetworkFilter_Name :: string
  NetworkFilter_ProjectID :: string

record SubnetFilter =
  SubnetFilter_ID :: string
  SubnetFilter_Name :: string
  SubnetFilter_NetworkID :: string
  SubnetFilter_ProjectID :: string

record SecurityGroupFilter =
  SecurityGroupFilter_ID :: string
  SecurityGroupFilter_Name :: string
  SecurityGroupFilter_ProjectID :: string

record SubnetParam =
  SubnetParam_UUID :: string
  SubnetParam_Filter :: SubnetFilter

text \<open>A nil slice of subnets is \<open>None\<close>; an empty slice that is not nil is \<open>Some []\<close>.\<close>

record NetworkParam =
  NetworkParam_UUID :: string
  NetworkParam_Filter :: NetworkFilter
  NetworkParam_Subnets :: "SubnetParam list option"

record SecurityGroupParam =
  SecurityGroupParam_UUID :: string
  SecurityGroupParam_Name :: string
  SecurityGroupParam_Filter :: SecurityGroupFilter

record FoundSubnet =
  FoundSubnet_ID :: string
  FoundSubnet_NetworkID :: string

record Instance =
  Instance_ID :: string
  Instance_Name :: string
  Instance_Trunk :: bool
  Instance_FailureDomain :: string
  Instance_SecurityGroups :: "string list option"
  Instance_Networks :: "Network list option"
  Instance_Subnet :: string
  Instance_Tags :: "string list"
  Instance_Image :: string
  Instance_Flavor :: string
  Instance_SSHKeyName :: string
  Instance_UserData :: string
  Instance_Metadata :: "string \<rightharpoonup> string"
  Instance_ConfigDrive :: "bool option"
  Instance_RootVolume :: "RootVolume option"
  Instance_ServerGroupID :: string
  Instance_State :: string
  Instance_IP :: string
  Instance_FloatingIP :: string

definition Instance_zero :: Instance where
  "Instance_zero =
     \<lparr>Instance_ID = [], Instance_Name = [], Instance_Trunk = False,
      Instance_FailureDomain = [], Instance_SecurityGroups = None,
      Instance_Networks = None, Instance_Subnet = [], Instance_Tags = [],
      Instance_Image = [], Instance_Flavor = [], Instance_SSHKeyName = [],
      Instance_UserData = [], Instance_Metadata = Map.empty,
      Instance_ConfigDrive = None, Instance_RootVolume = None,
      Instance_ServerGroupID = [], Instance_State = [], Instance_IP = [],
      Instance_FloatingIP = []\<rparr>"

record OpenStackMachine =
  OpenStackMachine_Name :: string
  OpenStackMachine_Image :: string
  OpenStackMachine_Flavor :: string
  OpenStackMachine_SSHKeyName :: string
  OpenStackMachine_ServerMetadata :: "string \<rightharpoonup> string"
  OpenStackMachine_ConfigDrive :: "bool option"
  OpenStackMachine_RootVolume :: "RootVolume option"
  OpenStackMachine_Subnet :: string
  OpenStackMachine_Trunk :: bool
  OpenStackMachine_Tags :: "string list"
  OpenStackMachine_SecurityGroups :: "SecurityGroupParam list"
  OpenStackMachine_Networks :: "NetworkParam list"

text \<open>
  Of the cluster, the fields \<open>InstanceCreate\<close> reads. The network and the two
  security groups of the status are pointers. Of the machine, its failure domain and
  provider id (both pointers) and whether it carries the control-plane label
  (\<open>util.IsControlPlaneMachine\<close>).
\<close>

record OpenStackCluster =
  OpenStackCluster_Tags :: "string list"
  OpenStackCluster_ManagedSecurityGroups :: bool
  OpenStackCluster_ControlPlaneSecurityGroup :: "string option"
  OpenStackCluster_WorkerSecurityGroup :: "string option"
  OpenStackCluster_Network :: "Network option"

record Machine =
  Machine_FailureDomain :: "string option"
  Machine_ProviderID :: "string option"
  Machine_IsControlPlane :: bool

section \<open>The backend client\<close>

text \<open>
  A listing is fetched (\<open>AllPages\<close>) and then decoded (\<open>ExtractX\<close>); either step can
  fail, and the code words the two failures differently in places.
\<close>

datatype 'a listing = AllPagesErr error | ExtractErr error | Listed "'a list"

text \<open>
  The service holds the clients of the backend and the project id. The backend is a
  black box with a state of its own: every operation takes the state and returns its
  answer with the new state. Two library functions the code calls are parameters too:
  \<open>net.ParseIP\<close> (whether the string parses) and \<open>noderefutil.NewProviderID\<close>
  followed by \<open>ID()\<close>.
\<close>

record 's Service =
  projectID :: string
  extensions_List :: "'s \<Rightarrow> string listing \<times> 's"
  groups_List :: "SecurityGroupFilter \<Rightarrow> 's \<Rightarrow> string listing \<times> 's"
  networks_List :: "NetworkFilter \<Rightarrow> 's \<Rightarrow> string listing \<times> 's"
  subnets_List :: "SubnetFilter \<Rightarrow> 's \<Rightarrow> FoundSubnet listing \<times> 's"
  images_List :: "string \<Rightarrow> 's \<Rightarrow> Image listing \<times> 's"
  ports_List :: "string \<Rightarrow> string \<Rightarrow> 's \<Rightarrow> Port listing \<times> 's"
  ports_Create :: "PortCreateOpts \<Rightarrow> 's \<Rightarrow> (error + Port) \<times> 's"
  ports_Get :: "string \<Rightarrow> 's \<Rightarrow> (error + Port) \<times> 's"
  ports_Delete :: "string \<Rightarrow> 's \<Rightarrow> error option \<times> 's"
  trunks_List :: "string \<Rightarrow> string \<Rightarrow> 's \<Rightarrow> Trunk listing \<times> 's"
  trunks_Create :: "string \<Rightarrow> string \<Rightarrow> 's \<Rightarrow> (error + Trunk) \<times> 's"
  trunks_Delete :: "string \<Rightarrow> 's \<Rightarrow> error option \<times> 's"
  attributestags_ReplaceAll ::
    "string \<Rightarrow> string \<Rightarrow> string list \<Rightarrow> 's \<Rightarrow> (error + string list) \<times> 's"
  flavors_IDFromName :: "string \<Rightarrow> 's \<Rightarrow> (error + string) \<times> 's"
  servers_Create :: "CreateOptsBuilder \<Rightarrow> 's \<Rightarrow> (error + Server) \<times> 's"
  servers_Get :: "string \<Rightarrow> 's \<Rightarrow> (error + Server) \<times> 's"
  servers_List :: "string \<Rightarrow> 's \<Rightarrow> Server listing \<times> 's"
  servers_Delete :: "string \<Rightarrow> 's \<Rightarrow> error option \<times> 's"
  attachinterfaces_List :: "string \<Rightarrow> 's \<Rightarrow> Interface listing \<times> 's"
  attachinterfaces_Delete :: "string \<Rightarrow> string \<Rightarrow> 's \<Rightarrow> error option \<times> 's"
  net_ParseIP :: "string \<Rightarrow> bool"
  NewProviderID :: "string \<Rightarrow> error + string"

subsection \<open>The calls issued, in order\<close>

datatype call =
    ExtensionsList
  | GroupsList SecurityGroupFilter
  | NetworksList NetworkFilter
  | SubnetsList SubnetFilter
  | ImagesList string
  | PortsList string string
  | PortsCreate PortCreateOpts
  | PortsGet string
  | PortsDelete string
  | TrunksList string string
  | TrunksCreate string string
  | TrunksDelete string
  | TagsReplaceAll string string "string list"
  | FlavorsIDFromName string
  | ServersCreate CreateOptsBuilder
  | ServersGet string
  | ServersList string
  | ServersDelete string
  | InterfacesList string
  | InterfacesDelete string string

text \<open>
  What came back: a failure, a plain success, or the ids of the resources listed,
  fetched or created.
\<close>

datatype response = Failed error | Done | Found "string list"

type_synonym event = "call \<times> response"

record 's world =
  st :: 's
  trace :: "event list"

definition call_listing ::
  "call \<Rightarrow> ('a \<Rightarrow> string) \<Rightarrow> ('s \<Rightarrow> 'a listing \<times> 's) \<Rightarrow> 's world \<Rightarrow> 'a listing \<times> 's world" where
  "call_listing c ident f w =
     (case f (st w) of
        (r, s') \<Rightarrow>
          (r, \<lparr>st = s',
               trace = trace w @
                 [(c, case r of AllPagesErr e \<Rightarrow> Failed e | ExtractErr e \<Rightarrow> Failed e
                       | Listed xs \<Rightarrow> Found (map ident xs))]\<rparr>))"

definition call_result ::
  "call \<Rightarrow> ('a \<Rightarrow> string) \<Rightarrow> ('s \<Rightarrow> (error + 'a) \<times> 's) \<Rightarrow> 's world \<Rightarrow> (error + 'a) \<times> 's world" where
  "call_result c ident f w =
     (case f (st w) of
        (r, s') \<Rightarrow>
          (r, \<lparr>st = s',
               trace = trace w @
                 [(c, case r of Inl e \<Rightarrow> Failed e | Inr x \<Rightarrow> Found [ident x])]\<rparr>))"

definition call_tags ::
  "call \<Rightarrow> ('s \<Rightarrow> (error + string list) \<times> 's) \<Rightarrow> 's world
     \<Rightarrow> (error + string list) \<times> 's world" where
  "call_tags c f w =
     (case f (st w) of
        (r, s') \<Rightarrow>
          (r, \<lparr>st = s',
               trace = trace w @ [(c, case r of Inl e \<Rightarrow> Failed e | Inr x \<Rightarrow> Done)]\<rparr>))"

definition call_err ::
  "call \<Rightarrow> ('s \<Rightarrow> error option \<times> 's) \<Rightarrow> 's world \<Rightarrow> error option \<times> 's world" where
  "call_err c f w =
     (case f (st w) of
        (r, s') \<Rightarrow>
          (r, \<lparr>st = s',
               trace = trace w @ [(c, case r of Some e \<Rightarrow> Failed e | None \<Rightarrow> Done)]\<rparr>))"

subsection \<open>Polling\<close>

text \<open>
  \<open>util.PollImmediate interval timeout condition\<close> runs the condition at once and
  then once per interval until it answers true, fails, or the timeout passes. Real time
  is not modelled: \<open>n\<close> is the number of further attempts the timeout leaves after the
  first one.
\<close>

fun PollImmediate :: "nat \<Rightarrow> ('w \<Rightarrow> (error + bool) \<times> 'w) \<Rightarrow> 'w \<Rightarrow> error option \<times> 'w" where
  "PollImmediate 0 condition w =
     (case condition w of
        (Inl e, w') \<Rightarrow> (Some e, w')
      | (Inr done, w') \<Rightarrow> if done then (None, w') else (Some ErrWaitTimeout, w'))"
| "PollImmediate (Suc n) condition w =
     (case condition w of
        (Inl e, w') \<Rightarrow> (Some e, w')
      | (Inr done, w') \<Rightarrow> if done then (None, w') else PollImmediate n condition w')"

text \<open>
  The timeouts of the source (\<open>TimeoutTrunkDelete\<close>, \<open>TimeoutPortDelete\<close>,
  \<open>TimeoutInstanceDelete\<close>, and the create timeout that \<open>getTimeout\<close> reads from the
  environment), each as the number of further attempts it leaves.
\<close>

record Timeouts =
  TimeoutInstanceCreate :: nat
  TimeoutTrunkDelete :: nat
  TimeoutPortDelete :: nat
  TimeoutInstanceDelete :: nat

section \<open>Reading instances\<close>

fun GetIPFromInstance_interfaces ::
  "address list \<Rightarrow> (string \<rightharpoonup> string) \<Rightarrow> error + (string \<rightharpoonup> string)" where
  "GetIPFromInstance_interfaces [] addrMap = Inr addrMap"
| "GetIPFromInstance_interfaces (NotAnInterface # rest) addrMap =
     Inl (Errorf ''extract IP from instance err: %v'' [ArgE (LibErr ''json'')])"
| "GetIPFromInstance_interfaces (NetworkInterface addr v4 type # rest) addrMap =
     GetIPFromInstance_interfaces rest
       (if v4 then
          (if type = ''floating'' then addrMap(''floating'' \<mapsto> addr)
           else addrMap(''internal'' \<mapsto> addr))
        else addrMap)"

fun GetIPFromInstance_addresses ::
  "(string \<times> address_list) list \<Rightarrow> (string \<rightharpoonup> string) \<Rightarrow> error + (string \<rightharpoonup> string)" where
  "GetIPFromInstance_addresses [] addrMap = Inr addrMap"
| "GetIPFromInstance_addresses ((k, NotAList) # rest) addrMap =
     Inl (Errorf ''extract IP from instance err: %v'' [ArgE (LibErr ''json'')])"
| "GetIPFromInstance_addresses ((k, AddressList networkList) # rest) addrMap =
     (case GetIPFromInstance_interfaces networkList addrMap of
        Inl e \<Rightarrow> Inl e
      | Inr addrMap' \<Rightarrow> GetIPFromInstance_addresses rest addrMap')"

definition GetIPFromInstance :: "'s Service \<Rightarrow> Server \<Rightarrow> error + (string \<rightharpoonup> string)" where
  "GetIPFromInstance s v =
     (if Server_AccessIPv4 v \<noteq> [] \<and> net_ParseIP s (Server_AccessIPv4 v)
      then Inr [''internal'' \<mapsto> Server_AccessIPv4 v]
      else GetIPFromInstance_addresses (Server_Addresses v) Map.empty)"

text \<open>A missing key of a Go map reads as the empty string.\<close>

definition lookup_addr :: "(string \<rightharpoonup> string) \<Rightarrow> string \<Rightarrow> string" where
  "lookup_addr addrMap k = (case addrMap k of None \<Rightarrow> [] | Some a \<Rightarrow> a)"

text \<open>\<open>serverToInstance\<close> returns both results: on an error the instance half filled.\<close>

definition serverToInstance :: "'s Service \<Rightarrow> Server option \<Rightarrow> Instance option \<times> error option" where
  "serverToInstance s v =
     (case v of
        None \<Rightarrow> (None, None)
      | Some v \<Rightarrow>
          (let i = Instance_zero
                 \<lparr>Instance_ID := Server_ID v, Instance_Name := Server_Name v,
                  Instance_SSHKeyName := Server_KeyName v,
                  Instance_State := Server_Status v\<rparr>
           in case GetIPFromInstance s v of
                Inl err \<Rightarrow> (Some i, Some err)
              | Inr addrMap \<Rightarrow>
                  (Some (i\<lparr>Instance_IP := lookup_addr addrMap ''internal'',
                            Instance_FloatingIP :=
                              (if lookup_addr addrMap ''floating'' \<noteq> []
                               then lookup_addr addrMap ''floating''
                               else Instance_FloatingIP i)\<rparr>), None)))"

definition GetInstance ::
  "'s Service \<Rightarrow> string \<Rightarrow> 's world \<Rightarrow> (error + Instance option) \<times> 's world" where
  "GetInstance s resourceID w =
     (if resourceID = [] then
        (Inl (Errorf ''resourceId should be specified to get detail'' []), w)
      else
        (case call_result (ServersGet resourceID) Server_ID (servers_Get s resourceID) w of
           (Inl err, w') \<Rightarrow>
             if IsNotFound err then (Inr None, w')
             else (Inl (Errorf ''get server %q detail failed: %v'' [ArgS resourceID, ArgE err]), w')
         | (Inr server, w') \<Rightarrow>
             (case serverToInstance s (Some server) of
                (i, Some err) \<Rightarrow> (Inl err, w')
              | (i, None) \<Rightarrow> (Inr i, w'))))"




section \<open>Resolving the image\<close>

definition getImageID :: "'s Service \<Rightarrow> string \<Rightarrow> 's world \<Rightarrow> (error + string) \<times> 's world" where
  "getImageID s imageName w =
     (if imageName = [] then (Inr [], w)
      else
        (case call_listing (ImagesList imageName) Image_ID (images_List s imageName) w of
           (AllPagesErr err, w') \<Rightarrow> (Inl err, w')
         | (ExtractErr err, w') \<Rightarrow> (Inl err, w')
         | (Listed allImages, w') \<Rightarrow>
             (case allImages of
                [] \<Rightarrow>
                  (Inl (Errorf ''no image with the name %s could be found'' [ArgS imageName]), w')
              | [img] \<Rightarrow> (Inr (Image_ID img), w')
              | img # others \<Rightarrow>
                  (Inl (Errorf ''too many images with the name, %s, were found'' [ArgS imageName]),
                   w'))))"

section \<open>Teardown\<close>

definition getTrunkSupport :: "'s Service \<Rightarrow> 's world \<Rightarrow> (error + bool) \<times> 's world" where
  "getTrunkSupport s w =
     (case call_listing ExtensionsList id (extensions_List s) w of
        (AllPagesErr err, w') \<Rightarrow> (Inl err, w')
      | (ExtractErr err, w') \<Rightarrow> (Inl err, w')
      | (Listed allExts, w') \<Rightarrow> (Inr (list_ex (\<lambda>alias. alias = ''trunk'') allExts), w'))"

text \<open>The two conditions polled in \<open>deleteInstance\<close>: one delete call per attempt.\<close>

definition deleteInstance_trunkCondition ::
  "'s Service \<Rightarrow> string \<Rightarrow> 's world \<Rightarrow> (error + bool) \<times> 's world" where
  "deleteInstance_trunkCondition s trunkID w =
     (case call_err (TrunksDelete trunkID) (trunks_Delete s trunkID) w of
        (Some err, w') \<Rightarrow> if IsRetryable err then (Inr False, w') else (Inl err, w')
      | (None, w') \<Rightarrow> (Inr True, w'))"

definition deleteInstance_portCondition ::
  "'s Service \<Rightarrow> string \<Rightarrow> 's world \<Rightarrow> (error + bool) \<times> 's world" where
  "deleteInstance_portCondition s portID w =
     (case call_err (PortsDelete portID) (ports_Delete s portID) w of
        (Some err, w') \<Rightarrow> if IsRetryable err then (Inr False, w') else (Inl err, w')
      | (None, w') \<Rightarrow> (Inr True, w'))"

text \<open>The trunk part of one round of the loop, entered when the backend has trunks.\<close>

definition deleteInstance_trunks ::
  "Timeouts \<Rightarrow> 's Service \<Rightarrow> string \<Rightarrow> 's world \<Rightarrow> error option \<times> 's world" where
  "deleteInstance_trunks t s portID w =
     (case call_listing (TrunksList [] portID) Trunk_ID (trunks_List s [] portID) w of
        (AllPagesErr err, w') \<Rightarrow> (Some err, w')
      | (ExtractErr err, w') \<Rightarrow> (Some err, w')
      | (Listed trunkInfo, w') \<Rightarrow>
          (case trunkInfo of
             [trunk] \<Rightarrow>
               (case PollImmediate (TimeoutTrunkDelete t)
                       (deleteInstance_trunkCondition s (Trunk_ID trunk)) w' of
                  (Some err, w'') \<Rightarrow>
                    (Some (Errorf ''error deleting the trunk %v'' [ArgS (Trunk_ID trunk)]), w'')
                | (None, w'') \<Rightarrow> (None, w''))
           | other \<Rightarrow> (None, w')))"

fun deleteInstance_loop ::
  "Timeouts \<Rightarrow> 's Service \<Rightarrow> string \<Rightarrow> bool \<Rightarrow> Interface list \<Rightarrow> 's world
     \<Rightarrow> error option \<times> 's world" where
  "deleteInstance_loop t s serverID trunkSupport [] w = (None, w)"
| "deleteInstance_loop t s serverID trunkSupport (port # rest) w =
     (case call_err (InterfacesDelete serverID (Interface_PortID port))
             (attachinterfaces_Delete s serverID (Interface_PortID port)) w of
        (Some err, w1) \<Rightarrow> (Some err, w1)
      | (None, w1) \<Rightarrow>
          (case (if trunkSupport then deleteInstance_trunks t s (Interface_PortID port) w1
                 else (None, w1)) of
             (Some err, w2) \<Rightarrow> (Some err, w2)
           | (None, w2) \<Rightarrow>
               (case PollImmediate (TimeoutPortDelete t)
                       (deleteInstance_portCondition s (Interface_PortID port)) w2 of
                  (Some err, w3) \<Rightarrow>
                    (Some (Errorf ''error deleting the port %v'' [ArgS (Interface_PortID port)]),
                     w3)
                | (None, w3) \<Rightarrow> deleteInstance_loop t s serverID trunkSupport rest w3)))"

definition deleteInstance ::
  "Timeouts \<Rightarrow> 's Service \<Rightarrow> string \<Rightarrow> 's world \<Rightarrow> error option \<times> 's world" where
  "deleteInstance t s serverID w =
     (case call_listing (InterfacesList serverID) Interface_PortID
             (attachinterfaces_List s serverID) w of
        (AllPagesErr err, w1) \<Rightarrow> (Some err, w1)
      | (ExtractErr err, w1) \<Rightarrow> (Some err, w1)
      | (Listed instanceInterfaces, w1) \<Rightarrow>
          if length instanceInterfaces < 1 then
            call_err (ServersDelete serverID) (servers_Delete s serverID) w1
          else
            (case getTrunkSupport s w1 of
               (Inl err, w2) \<Rightarrow> (Some (Errorf ''obtaining network extensions: %v'' [ArgE err]), w2)
             | (Inr trunkSupport, w2) \<Rightarrow>
                 (case deleteInstance_loop t s serverID trunkSupport instanceInterfaces w2 of
                    (Some err, w3) \<Rightarrow> (Some err, w3)
                  | (None, w3) \<Rightarrow>
                      call_err (ServersDelete serverID) (servers_Delete s serverID) w3)))"

text \<open>
  The condition \<open>InstanceDelete\<close> polls after the teardown. \<open>GetInstance\<close> has already
  turned a not-found answer into an absent instance with no error.
\<close>

definition InstanceDelete_condition ::
  "'s Service \<Rightarrow> string \<Rightarrow> 's world \<Rightarrow> (error + bool) \<times> 's world" where
  "InstanceDelete_condition s serverID w =
     (case GetInstance s serverID w of
        (Inl err, w') \<Rightarrow> if IsNotFound err then (Inr True, w') else (Inl err, w')
      | (Inr i, w') \<Rightarrow> (Inr False, w'))"

definition InstanceDelete ::
  "Timeouts \<Rightarrow> 's Service \<Rightarrow> Machine \<Rightarrow> 's world \<Rightarrow> error option \<times> 's world" where
  "InstanceDelete t s machine w =
     (case Machine_ProviderID machine of
        None \<Rightarrow> (None, w)
      | Some providerID \<Rightarrow>
          (case NewProviderID s providerID of
             Inl err \<Rightarrow> (Some err, w)
           | Inr parsedID \<Rightarrow>
               (case deleteInstance t s parsedID w of
                  (Some err, w1) \<Rightarrow> (Some err, w1)
                | (None, w1) \<Rightarrow>
                    (case PollImmediate (TimeoutInstanceDelete t)
                            (InstanceDelete_condition s parsedID) w1 of
                       (Some err, w2) \<Rightarrow>
                         (Some (Errorf ''error deleting Openstack instance %s, %v''
                                  [ArgS parsedID, ArgE err]), w2)
                     | (None, w2) \<Rightarrow> (None, w2)))))"

section \<open>Resolving security groups and networks\<close>

fun isDuplicate :: "string list \<Rightarrow> string \<Rightarrow> bool" where
  "isDuplicate [] name = False"
| "isDuplicate (element # rest) name = (if element = name then True else isDuplicate rest name)"

fun getSecurityGroups_groups :: "string list \<Rightarrow> string list \<Rightarrow> string list" where
  "getSecurityGroups_groups [] sgIDs = sgIDs"
| "getSecurityGroups_groups (groupID # rest) sgIDs =
     (if isDuplicate sgIDs groupID then getSecurityGroups_groups rest sgIDs
      else getSecurityGroups_groups rest (sgIDs @ [groupID]))"

definition getSecurityGroups_listOpts :: "'s Service \<Rightarrow> SecurityGroupParam \<Rightarrow> SecurityGroupFilter" where
  "getSecurityGroups_listOpts s sg =
     (let listOpts = SecurityGroupParam_Filter sg;
          listOpts = (if SecurityGroupFilter_ProjectID listOpts = []
                      then listOpts\<lparr>SecurityGroupFilter_ProjectID := projectID s\<rparr>
                      else listOpts)
      in listOpts\<lparr>SecurityGroupFilter_Name := SecurityGroupParam_Name sg,
                   SecurityGroupFilter_ID := SecurityGroupParam_UUID sg\<rparr>)"

fun getSecurityGroups_loop ::
  "'s Service \<Rightarrow> SecurityGroupParam list \<Rightarrow> string list \<Rightarrow> 's world
     \<Rightarrow> (error + string list) \<times> 's world" where
  "getSecurityGroups_loop s [] sgIDs w = (Inr sgIDs, w)"
| "getSecurityGroups_loop s (sg # rest) sgIDs w =
     (case call_listing (GroupsList (getSecurityGroups_listOpts s sg)) id
             (groups_List s (getSecurityGroups_listOpts s sg)) w of
        (AllPagesErr err, w') \<Rightarrow> (Inl err, w')
      | (ExtractErr err, w') \<Rightarrow> (Inl err, w')
      | (Listed SGList, w') \<Rightarrow>
          if length SGList = 0 then
            (Inl (Errorf ''security group %s not found'' [ArgS (SecurityGroupParam_Name sg)]), w')
          else getSecurityGroups_loop s rest (getSecurityGroups_groups SGList sgIDs) w')"

definition getSecurityGroups ::
  "'s Service \<Rightarrow> SecurityGroupParam list \<Rightarrow> 's world \<Rightarrow> (error + string list) \<times> 's world" where
  "getSecurityGroups s securityGroupParams w = getSecurityGroups_loop s securityGroupParams [] w"

text \<open>
  Modelled from the spec: \<open>networking.GetNetworkIDsByFilter\<close> and
  \<open>networking.GetSubnetsByFilter\<close> (package \<open>pkg/cloud/services/networking\<close>) are the
  resource locator for networks and for subnets: given a filter they find the matching
  resources, they never create, and they tolerate zero matches, whose meaning is for
  the caller to decide.
\<close>

definition GetNetworkIDsByFilter ::
  "'s Service \<Rightarrow> NetworkFilter \<Rightarrow> 's world \<Rightarrow> (error + string list) \<times> 's world" where
  "GetNetworkIDsByFilter s opts w =
     (case call_listing (NetworksList opts) id (networks_List s opts) w of
        (AllPagesErr err, w') \<Rightarrow> (Inl err, w')
      | (ExtractErr err, w') \<Rightarrow> (Inl err, w')
      | (Listed ids, w') \<Rightarrow> (Inr ids, w'))"

definition GetSubnetsByFilter ::
  "'s Service \<Rightarrow> SubnetFilter \<Rightarrow> 's world \<Rightarrow> (error + FoundSubnet list) \<times> 's world" where
  "GetSubnetsByFilter s opts w =
     (case call_listing (SubnetsList opts) FoundSubnet_ID (subnets_List s opts) w of
        (AllPagesErr err, w') \<Rightarrow> (Inl err, w')
      | (ExtractErr err, w') \<Rightarrow> (Inl err, w')
      | (Listed found, w') \<Rightarrow> (Inr found, w'))"

definition getServerNetworks_opts :: "NetworkParam \<Rightarrow> NetworkFilter" where
  "getServerNetworks_opts networkParam =
     (NetworkParam_Filter networkParam)\<lparr>NetworkFilter_ID := NetworkParam_UUID networkParam\<rparr>"

definition getServerNetworks_subnetOpts :: "SubnetParam \<Rightarrow> string \<Rightarrow> SubnetFilter" where
  "getServerNetworks_subnetOpts subnet netID =
     (SubnetParam_Filter subnet)
       \<lparr>SubnetFilter_ID := SubnetParam_UUID subnet, SubnetFilter_NetworkID := netID\<rparr>"

text \<open>The three nested loops of \<open>getServerNetworks\<close>, innermost first.\<close>

fun getServerNetworks_subnets ::
  "'s Service \<Rightarrow> string \<Rightarrow> SubnetParam list \<Rightarrow> Network list \<Rightarrow> 's world
     \<Rightarrow> (error + Network list) \<times> 's world" where
  "getServerNetworks_subnets s netID [] nets w = (Inr nets, w)"
| "getServerNetworks_subnets s netID (subnet # rest) nets w =
     (case GetSubnetsByFilter s (getServerNetworks_subnetOpts subnet netID) w of
        (Inl err, w') \<Rightarrow> (Inl err, w')
      | (Inr subnetsByFilter, w') \<Rightarrow>
          getServerNetworks_subnets s netID rest
            (nets @ map (\<lambda>subnetByFilter.
                           \<lparr>Network_ID = FoundSubnet_NetworkID subnetByFilter,
                            Network_Subnet = Some \<lparr>Subnet_ID = FoundSubnet_ID subnetByFilter\<rparr>\<rparr>)
                        subnetsByFilter) w')"

fun getServerNetworks_ids ::
  "'s Service \<Rightarrow> NetworkParam \<Rightarrow> string list \<Rightarrow> Network list \<Rightarrow> 's world
     \<Rightarrow> (error + Network list) \<times> 's world" where
  "getServerNetworks_ids s networkParam [] nets w = (Inr nets, w)"
| "getServerNetworks_ids s networkParam (netID # rest) nets w =
     (case NetworkParam_Subnets networkParam of
        None \<Rightarrow>
          getServerNetworks_ids s networkParam rest
            (nets @ [\<lparr>Network_ID = netID, Network_Subnet = None\<rparr>]) w
      | Some subnets \<Rightarrow>
          (case getServerNetworks_subnets s netID subnets nets w of
             (Inl err, w') \<Rightarrow> (Inl err, w')
           | (Inr nets', w') \<Rightarrow> getServerNetworks_ids s networkParam rest nets' w'))"

fun getServerNetworks_loop ::
  "'s Service \<Rightarrow> NetworkParam list \<Rightarrow> Network list \<Rightarrow> 's world
     \<Rightarrow> (error + Network list) \<times> 's world" where
  "getServerNetworks_loop s [] nets w = (Inr nets, w)"
| "getServerNetworks_loop s (networkParam # rest) nets w =
     (case GetNetworkIDsByFilter s (getServerNetworks_opts networkParam) w of
        (Inl err, w') \<Rightarrow> (Inl err, w')
      | (Inr ids, w') \<Rightarrow>
          (case getServerNetworks_ids s networkParam ids nets w' of
             (Inl err, w'') \<Rightarrow> (Inl err, w'')
           | (Inr nets', w'') \<Rightarrow> getServerNetworks_loop s rest nets' w''))"

definition getServerNetworks ::
  "'s Service \<Rightarrow> NetworkParam list \<Rightarrow> 's world \<Rightarrow> (error + Network list) \<times> 's world" where
  "getServerNetworks s networkParams w = getServerNetworks_loop s networkParams [] w"

section \<open>Ports\<close>

definition createPort ::
  "'s Service \<Rightarrow> string \<Rightarrow> string \<Rightarrow> Network \<Rightarrow> string list option \<Rightarrow> 's world
     \<Rightarrow> (error + Port) \<times> 's world" where
  "createPort s clusterName name net securityGroups w =
     (case Network_Subnet net of
        None \<Rightarrow> (Inl (Panic ''nil pointer dereference''), w)
      | Some subnet \<Rightarrow>
          (let portCreateOpts =
                 \<lparr>PortCreateOpts_Name = name,
                  PortCreateOpts_NetworkID = Network_ID net,
                  PortCreateOpts_SecurityGroups = securityGroups,
                  PortCreateOpts_Description =
                    ''Created by cluster-api-provider-openstack cluster '' @ clusterName,
                  PortCreateOpts_FixedIPs =
                    (if Subnet_ID subnet \<noteq> []
                     then [\<lparr>IP_SubnetID = Subnet_ID subnet, IP_IPAddress = []\<rparr>] else [])\<rparr>
           in case call_result (PortsCreate portCreateOpts) Port_ID
                     (ports_Create s portCreateOpts) w of
                (Inl err, w') \<Rightarrow> (Inl (Errorf ''create port for server: %v'' [ArgE err]), w')
              | (Inr newPort, w') \<Rightarrow> (Inr newPort, w')))"

fun deletePorts :: "'s Service \<Rightarrow> ServerNetwork list \<Rightarrow> 's world \<Rightarrow> error option \<times> 's world" where
  "deletePorts s [] w = (None, w)"
| "deletePorts s (n # nets) w =
     (case call_result (PortsGet (ServerNetwork_Port n)) Port_ID
             (ports_Get s (ServerNetwork_Port n)) w of
        (got, w1) \<Rightarrow>
          if (case got of Inl err \<Rightarrow> IsNotFound err | Inr p \<Rightarrow> False) then (None, w1)
          else
            (case call_err (PortsDelete (ServerNetwork_Port n))
                    (ports_Delete s (ServerNetwork_Port n)) w1 of
               (Some err, w2) \<Rightarrow> (Some err, w2)
             | (None, w2) \<Rightarrow> deletePorts s nets w2))"

section \<open>Provisioning\<close>

text \<open>The loop over the fixed IPs of a port: the last one on the access subnet wins.\<close>

fun createInstance_fixedIPs :: "string \<Rightarrow> IP list \<Rightarrow> string \<Rightarrow> string" where
  "createInstance_fixedIPs subnet [] accessIPv4 = accessIPv4"
| "createInstance_fixedIPs subnet (fip # rest) accessIPv4 =
     createInstance_fixedIPs subnet rest
       (if IP_SubnetID fip = subnet then IP_IPAddress fip else accessIPv4)"

text \<open>The trunk part of one round of the loop, entered in trunk mode.\<close>

definition createInstance_trunk ::
  "'s Service \<Rightarrow> Instance \<Rightarrow> Port \<Rightarrow> 's world \<Rightarrow> error option \<times> 's world" where
  "createInstance_trunk s i port w =
     (case call_listing (TrunksList (Instance_Name i) (Port_ID port)) Trunk_ID
             (trunks_List s (Instance_Name i) (Port_ID port)) w of
        (AllPagesErr err, w1) \<Rightarrow>
          (Some (Errorf ''searching for existing trunk for server err: %v'' [ArgE err]), w1)
      | (ExtractErr err, w1) \<Rightarrow>
          (Some (Errorf ''searching for existing trunk for server err: %v'' [ArgE err]), w1)
      | (Listed trunkList, w1) \<Rightarrow>
          (case (case trunkList of
                   [] \<Rightarrow>
                     call_result (TrunksCreate (Instance_Name i) (Port_ID port)) Trunk_ID
                       (trunks_Create s (Instance_Name i) (Port_ID port)) w1
                 | first # others \<Rightarrow> (Inr first, w1)) of
             (Inl err, w2) \<Rightarrow> (Some (Errorf ''create trunk for server err: %v'' [ArgE err]), w2)
           | (Inr trunk, w2) \<Rightarrow>
               (case call_tags (TagsReplaceAll ''trunks'' (Trunk_ID trunk) (Instance_Tags i))
                       (attributestags_ReplaceAll s ''trunks'' (Trunk_ID trunk) (Instance_Tags i))
                       w2 of
                  (Inl err, w3) \<Rightarrow> (Some (Errorf ''tagging trunk for server err: %v'' [ArgE err]), w3)
                | (Inr tags, w3) \<Rightarrow> (None, w3))))"

fun createInstance_loop ::
  "'s Service \<Rightarrow> string \<Rightarrow> Instance \<Rightarrow> Network list \<Rightarrow> string \<Rightarrow> ServerNetwork list
     \<Rightarrow> 's world \<Rightarrow> (error + string \<times> ServerNetwork list) \<times> 's world" where
  "createInstance_loop s clusterName i [] accessIPv4 portsList w =
     (Inr (accessIPv4, portsList), w)"
| "createInstance_loop s clusterName i (network # rest) accessIPv4 portsList w =
     (if Network_ID network = [] then
        (Inl (Errorf ''no network was found or provided. Please check your machine configuration and try again'' []),
         w)
      else
        (case call_listing (PortsList (Instance_Name i) (Network_ID network)) Port_ID
                (ports_List s (Instance_Name i) (Network_ID network)) w of
           (AllPagesErr err, w1) \<Rightarrow>
             (Inl (Errorf ''searching for existing port for server: %v'' [ArgE err]), w1)
         | (ExtractErr err, w1) \<Rightarrow>
             (Inl (Errorf ''searching for existing port for server err: %v'' [ArgE err]), w1)
         | (Listed portList, w1) \<Rightarrow>
             (case (case portList of
                      [] \<Rightarrow>
                        createPort s clusterName (Instance_Name i) network
                          (Instance_SecurityGroups i) w1
                    | first # others \<Rightarrow> (Inr first, w1)) of
                (Inl (Panic m), w2) \<Rightarrow> (Inl (Panic m), w2)
              | (Inl err, w2) \<Rightarrow> (Inl (Errorf ''failed to create port err: %v'' [ArgE err]), w2)
              | (Inr port, w2) \<Rightarrow>
                  (case (if Instance_Trunk i then createInstance_trunk s i port w2
                         else (None, w2)) of
                     (Some err, w3) \<Rightarrow> (Inl err, w3)
                   | (None, w3) \<Rightarrow>
                       createInstance_loop s clusterName i rest
                         (createInstance_fixedIPs (Instance_Subnet i) (Port_FixedIPs port) accessIPv4)
                         (portsList @ [\<lparr>ServerNetwork_Port = Port_ID port\<rparr>]) w3))))"

text \<open>\<open>infrav1.InstanceStateActive\<close>.\<close>

definition InstanceStateActive :: string where
  "InstanceStateActive = ''ACTIVE''"

text \<open>
  The condition polled after the server is created. It assigns the variable
  \<open>instance\<close> of the enclosing function, which is carried beside the world.
\<close>

definition createInstance_condition ::
  "'s Service \<Rightarrow> string \<Rightarrow> Instance option \<times> 's world
     \<Rightarrow> (error + bool) \<times> Instance option \<times> 's world" where
  "createInstance_condition s serverID iw =
     (case GetInstance s serverID (snd iw) of
        (Inl err, w') \<Rightarrow>
          if IsRetryable err then (Inr False, None, w') else (Inl err, None, w')
      | (Inr None, w') \<Rightarrow> (Inl (Panic ''nil pointer dereference''), None, w')
      | (Inr (Some inst), w') \<Rightarrow>
          (Inr (Instance_State inst = InstanceStateActive), Some inst, w'))"

definition createInstance_opts ::
  "Instance \<Rightarrow> string \<Rightarrow> string \<Rightarrow> ServerNetwork list \<Rightarrow> string list \<Rightarrow> string
     \<Rightarrow> CreateOptsBuilder" where
  "createInstance_opts i imageID flavorID portsList securityGroups accessIPv4 =
     KeypairExt
       (applyServerGroupID
          (applyRootVolume
             (Base \<lparr>CreateOpts_Name = Instance_Name i,
                    CreateOpts_ImageRef = imageID,
                    CreateOpts_FlavorRef = flavorID,
                    CreateOpts_AvailabilityZone = Instance_FailureDomain i,
                    CreateOpts_Networks = portsList,
                    CreateOpts_UserData = Instance_UserData i,
                    CreateOpts_SecurityGroups = securityGroups,
                    CreateOpts_Tags = Instance_Tags i,
                    CreateOpts_Metadata = Instance_Metadata i,
                    CreateOpts_ConfigDrive = Instance_ConfigDrive i,
                    CreateOpts_AccessIPv4 = accessIPv4\<rparr>)
             (Instance_RootVolume i))
          (Instance_ServerGroupID i))
       (Instance_SSHKeyName i)"

text \<open>What follows the access-address check: flavor, payload, server, convergence.\<close>

definition createInstance_server ::
  "Timeouts \<Rightarrow> 's Service \<Rightarrow> Instance \<Rightarrow> string \<Rightarrow> string \<Rightarrow> ServerNetwork list \<Rightarrow> 's world
     \<Rightarrow> (error + Instance option) \<times> 's world" where
  "createInstance_server t s i imageID accessIPv4 portsList w =
     (case call_result (FlavorsIDFromName (Instance_Flavor i)) id
             (flavors_IDFromName s (Instance_Flavor i)) w of
        (Inl err, w1) \<Rightarrow>
          (Inl (Errorf ''error getting flavor id from flavor name %s: %v''
                  [ArgS (Instance_Flavor i), ArgE err]), w1)
      | (Inr flavorID, w1) \<Rightarrow>
          (case Instance_SecurityGroups i of
             None \<Rightarrow> (Inl (Panic ''nil pointer dereference''), w1)
           | Some securityGroups \<Rightarrow>
               (let opts = createInstance_opts i imageID flavorID portsList securityGroups accessIPv4
                in case call_result (ServersCreate opts) Server_ID (servers_Create s opts) w1 of
                     (Inl err, w2) \<Rightarrow>
                       (case deletePorts s portsList w2 of
                          (Some errd, w3) \<Rightarrow>
                            (Inl (Errorf ''error recover creating Openstack instance: error cleaning up ports: %v''
                                    [ArgE errd]), w3)
                        | (None, w3) \<Rightarrow>
                            (Inl (Errorf ''error creating Openstack instance: %v'' [ArgE err]), w3))
                   | (Inr server, w2) \<Rightarrow>
                       (case PollImmediate (TimeoutInstanceCreate t)
                               (createInstance_condition s (Server_ID server)) (None, w2) of
                          (Some (Panic m), inst, w3) \<Rightarrow> (Inl (Panic m), w3)
                        | (Some err, inst, w3) \<Rightarrow>
                            (Inl (Errorf ''error creating Openstack instance %s, %v''
                                    [ArgS (Server_ID server), ArgE err]), w3)
                        | (None, inst, w3) \<Rightarrow> (Inr inst, w3)))))"

definition createInstance ::
  "Timeouts \<Rightarrow> 's Service \<Rightarrow> string \<Rightarrow> Instance \<Rightarrow> 's world
     \<Rightarrow> (error + Instance option) \<times> 's world" where
  "createInstance t s clusterName i w =
     (case getImageID s (Instance_Image i) w of
        (Inl err, w1) \<Rightarrow> (Inl (Errorf ''create new server err: %v'' [ArgE err]), w1)
      | (Inr imageID, w1) \<Rightarrow>
          (case Instance_Networks i of
             None \<Rightarrow> (Inl (Panic ''nil pointer dereference''), w1)
           | Some networkList \<Rightarrow>
               (case createInstance_loop s clusterName i networkList [] [] w1 of
                  (Inl err, w2) \<Rightarrow> (Inl err, w2)
                | (Inr (accessIPv4, portsList), w2) \<Rightarrow>
                    if Instance_Subnet i \<noteq> [] \<and> accessIPv4 = [] then
                      (case deletePorts s portsList w2 of
                         (Some errd, w3) \<Rightarrow>
                           (Inl (Errorf ''no ports with fixed IPs found on Subnet %q: error cleaning up ports: %v''
                                   [ArgS (Instance_Subnet i), ArgE errd]), w3)
                       | (None, w3) \<Rightarrow>
                           (Inl (Errorf ''no ports with fixed IPs found on Subnet %q''
                                   [ArgS (Instance_Subnet i)]), w3))
                    else createInstance_server t s i imageID accessIPv4 portsList w2)))"

text \<open>
  The descriptor \<open>InstanceCreate\<close> builds before it asks the backend anything. The
  scheduler group is left at its zero value. The events that \<open>InstanceCreate\<close> and
  \<open>InstanceDelete\<close> record for the operator (\<open>record.Warnf\<close>, \<open>record.Eventf\<close>) go
  to a sink and are left out.
\<close>

definition InstanceCreate_input ::
  "OpenStackCluster \<Rightarrow> OpenStackMachine \<Rightarrow> string \<Rightarrow> string \<Rightarrow> Instance" where
  "InstanceCreate_input openStackCluster openStackMachine failureDomain userData =
     Instance_zero
       \<lparr>Instance_Name := OpenStackMachine_Name openStackMachine,
        Instance_Image := OpenStackMachine_Image openStackMachine,
        Instance_Flavor := OpenStackMachine_Flavor openStackMachine,
        Instance_SSHKeyName := OpenStackMachine_SSHKeyName openStackMachine,
        Instance_UserData := userData,
        Instance_Metadata := OpenStackMachine_ServerMetadata openStackMachine,
        Instance_ConfigDrive := OpenStackMachine_ConfigDrive openStackMachine,
        Instance_FailureDomain := failureDomain,
        Instance_RootVolume := OpenStackMachine_RootVolume openStackMachine,
        Instance_Subnet := OpenStackMachine_Subnet openStackMachine\<rparr>"

definition InstanceCreate_trunk ::
  "'s Service \<Rightarrow> OpenStackMachine \<Rightarrow> Instance \<Rightarrow> 's world \<Rightarrow> (error + Instance) \<times> 's world" where
  "InstanceCreate_trunk s openStackMachine input w =
     (if OpenStackMachine_Trunk openStackMachine then
        (case getTrunkSupport s w of
           (Inl err, w') \<Rightarrow>
             (Inl (Errorf ''there was an issue verifying whether trunk support is available, please disable it: %v''
                     [ArgE err]), w')
         | (Inr trunkSupport, w') \<Rightarrow>
             if \<not> trunkSupport then
               (Inl (Errorf ''there is no trunk support. Please disable it'' []), w')
             else (Inr (input\<lparr>Instance_Trunk := trunkSupport\<rparr>), w'))
      else (Inr input, w))"

definition InstanceCreate_managedGroups ::
  "OpenStackCluster \<Rightarrow> Machine \<Rightarrow> string list \<Rightarrow> error + string list" where
  "InstanceCreate_managedGroups openStackCluster machine securityGroups =
     (if OpenStackCluster_ManagedSecurityGroups openStackCluster then
        (case (if Machine_IsControlPlane machine
               then OpenStackCluster_ControlPlaneSecurityGroup openStackCluster
               else OpenStackCluster_WorkerSecurityGroup openStackCluster) of
           None \<Rightarrow> Inl (Panic ''nil pointer dereference'')
         | Some groupID \<Rightarrow> Inr (securityGroups @ [groupID]))
      else Inr securityGroups)"

definition InstanceCreate_networks ::
  "'s Service \<Rightarrow> OpenStackCluster \<Rightarrow> OpenStackMachine \<Rightarrow> 's world
     \<Rightarrow> (error + Network list) \<times> 's world" where
  "InstanceCreate_networks s openStackCluster openStackMachine w =
     (if length (OpenStackMachine_Networks openStackMachine) > 0 then
        getServerNetworks s (OpenStackMachine_Networks openStackMachine) w
      else
        (case OpenStackCluster_Network openStackCluster of
           None \<Rightarrow> (Inl (Panic ''nil pointer dereference''), w)
         | Some network \<Rightarrow>
             (case Network_Subnet network of
                None \<Rightarrow> (Inl (Panic ''nil pointer dereference''), w)
              | Some subnet \<Rightarrow>
                  (Inr [\<lparr>Network_ID = Network_ID network,
                         Network_Subnet = Some \<lparr>Subnet_ID = Subnet_ID subnet\<rparr>\<rparr>], w))))"

definition InstanceCreate ::
  "Timeouts \<Rightarrow> 's Service \<Rightarrow> OpenStackCluster \<Rightarrow> Machine \<Rightarrow> OpenStackMachine option \<Rightarrow> string
     \<Rightarrow> string \<Rightarrow> 's world \<Rightarrow> (error + Instance option) \<times> 's world" where
  "InstanceCreate t s openStackCluster machine openStackMachine clusterName userData w =
     (case openStackMachine of
        None \<Rightarrow> (Inl (Errorf ''create Options need be specified to create instace'' []), w)
      | Some osm \<Rightarrow>
          (case Machine_FailureDomain machine of
             None \<Rightarrow> (Inl (Errorf ''failure domain not set'' []), w)
           | Some failureDomain \<Rightarrow>
               (case InstanceCreate_trunk s osm
                       (InstanceCreate_input openStackCluster osm failureDomain userData) w of
                  (Inl err, w1) \<Rightarrow> (Inl err, w1)
                | (Inr input, w1) \<Rightarrow>
                    (let machineTags =
                           deduplicate
                             (([] @ OpenStackMachine_Tags osm) @ OpenStackCluster_Tags openStackCluster);
                         input = input\<lparr>Instance_Tags := machineTags\<rparr>
                     in case getSecurityGroups s (OpenStackMachine_SecurityGroups osm) w1 of
                          (Inl err, w2) \<Rightarrow> (Inl err, w2)
                        | (Inr securityGroups, w2) \<Rightarrow>
                            (case InstanceCreate_managedGroups openStackCluster machine
                                    securityGroups of
                               Inl err \<Rightarrow> (Inl err, w2)
                             | Inr securityGroups \<Rightarrow>
                                 (case InstanceCreate_networks s openStackCluster osm w2 of
                                    (Inl err, w3) \<Rightarrow> (Inl err, w3)
                                  | (Inr nets, w3) \<Rightarrow>
                                      createInstance t s clusterName
                                        (input\<lparr>Instance_SecurityGroups := Some securityGroups,
                                               Instance_Networks := Some nets\<rparr>) w3))))))"

section \<open>Two backends to run the code on\<close>

text \<open>
  An empty backend: every listing is empty, nothing can be created, every lookup is
  not-found and every delete succeeds.
\<close>

definition null_Service :: "unit Service" where
  "null_Service =
     \<lparr>projectID = ''project'',
      extensions_List = (\<lambda>c. (Listed [], c)),
      groups_List = (\<lambda>opts c. (Listed [], c)),
      networks_List = (\<lambda>opts c. (Listed [], c)),
      subnets_List = (\<lambda>opts c. (Listed [], c)),
      images_List = (\<lambda>name c. (Listed [], c)),
      ports_List = (\<lambda>name net c. (Listed [], c)),
      ports_Create = (\<lambda>opts c. (Inl (BackendErr OtherC ''refused''), c)),
      ports_Get = (\<lambda>p c. (Inl (BackendErr NotFoundC ''port''), c)),
      ports_Delete = (\<lambda>p c. (None, c)),
      trunks_List = (\<lambda>name p c. (Listed [], c)),
      trunks_Create = (\<lambda>name p c. (Inl (BackendErr OtherC ''refused''), c)),
      trunks_Delete = (\<lambda>tr c. (None, c)),
      attributestags_ReplaceAll = (\<lambda>kind tr tags c. (Inr tags, c)),
      flavors_IDFromName = (\<lambda>name c. (Inl (BackendErr NotFoundC ''flavor''), c)),
      servers_Create = (\<lambda>opts c. (Inl (BackendErr OtherC ''refused''), c)),
      servers_Get = (\<lambda>r c. (Inl (BackendErr NotFoundC ''server''), c)),
      servers_List = (\<lambda>name c. (Listed [], c)),
      servers_Delete = (\<lambda>r c. (None, c)),
      attachinterfaces_List = (\<lambda>r c. (Listed [], c)),
      attachinterfaces_Delete = (\<lambda>r p c. (None, c)),
      net_ParseIP = (\<lambda>a. True),
      NewProviderID = (\<lambda>p. Inr p)\<rparr>"

definition world0 :: "unit world" where
  "world0 = \<lparr>st = (), trace = []\<rparr>"

text \<open>
  A small cloud that keeps its ports and trunks. A port is named after its network, a
  trunk after its parent port. While \<open>cloud_busy\<close> is positive a delete is answered
  with a retryable error and the count goes down by one. Every port is attached to the
  one server there is.
\<close>

record cloud =
  cloud_ports :: "Port list"
  cloud_trunks :: "Trunk list"
  cloud_busy :: nat

definition cloud_delete_port :: "string \<Rightarrow> cloud \<Rightarrow> error option \<times> cloud" where
  "cloud_delete_port p c =
     (if cloud_busy c > 0 then
        (Some (BackendErr RetryableC ''busy''), c\<lparr>cloud_busy := cloud_busy c - 1\<rparr>)
      else if list_ex (\<lambda>q. Port_ID q = p) (cloud_ports c) then
        (None, c\<lparr>cloud_ports := filter (\<lambda>q. Port_ID q \<noteq> p) (cloud_ports c)\<rparr>)
      else (Some (BackendErr NotFoundC ''port''), c))"

definition cloud_delete_trunk :: "string \<Rightarrow> cloud \<Rightarrow> error option \<times> cloud" where
  "cloud_delete_trunk tr c =
     (if cloud_busy c > 0 then
        (Some (BackendErr RetryableC ''busy''), c\<lparr>cloud_busy := cloud_busy c - 1\<rparr>)
      else if list_ex (\<lambda>q. Trunk_ID q = tr) (cloud_trunks c) then
        (None, c\<lparr>cloud_trunks := filter (\<lambda>q. Trunk_ID q \<noteq> tr) (cloud_trunks c)\<rparr>)
      else (Some (BackendErr NotFoundC ''trunk''), c))"

definition cloud_create_port :: "PortCreateOpts \<Rightarrow> cloud \<Rightarrow> (error + Port) \<times> cloud" where
  "cloud_create_port opts c =
     (let p = \<lparr>Port_ID = ''port-'' @ PortCreateOpts_NetworkID opts,
               Port_Name = PortCreateOpts_Name opts,
               Port_NetworkID = PortCreateOpts_NetworkID opts,
               Port_FixedIPs =
                 map (\<lambda>ip. ip\<lparr>IP_IPAddress := ''10.0.0.1''\<rparr>) (PortCreateOpts_FixedIPs opts)\<rparr>
      in (Inr p, c\<lparr>cloud_ports := cloud_ports c @ [p]\<rparr>))"

definition cloud_create_trunk :: "string \<Rightarrow> string \<Rightarrow> cloud \<Rightarrow> (error + Trunk) \<times> cloud" where
  "cloud_create_trunk name p c =
     (let tr = \<lparr>Trunk_ID = ''trunk-'' @ p, Trunk_Name = name, Trunk_PortID = p\<rparr>
      in (Inr tr, c\<lparr>cloud_trunks := cloud_trunks c @ [tr]\<rparr>))"

definition cloud_get_port :: "string \<Rightarrow> cloud \<Rightarrow> (error + Port) \<times> cloud" where
  "cloud_get_port p c =
     (case filter (\<lambda>q. Port_ID q = p) (cloud_ports c) of
        [] \<Rightarrow> (Inl (BackendErr NotFoundC ''port''), c)
      | q # others \<Rightarrow> (Inr q, c))"

definition cloud_Service :: "cloud Service" where
  "cloud_Service =
     \<lparr>projectID = ''project'',
      extensions_List = (\<lambda>c. (Listed [''trunk''], c)),
      groups_List = (\<lambda>opts c. (Listed [SecurityGroupFilter_Name opts], c)),
      networks_List = (\<lambda>opts c. (Listed [NetworkFilter_ID opts], c)),
      subnets_List =
        (\<lambda>opts c. (Listed [\<lparr>FoundSubnet_ID = SubnetFilter_ID opts,
                               FoundSubnet_NetworkID = SubnetFilter_NetworkID opts\<rparr>], c)),
      images_List = (\<lambda>name c. (Listed [\<lparr>Image_ID = ''image-'' @ name, Image_Name = name\<rparr>], c)),
      ports_List =
        (\<lambda>name net c.
           (Listed (filter (\<lambda>q. Port_Name q = name \<and> Port_NetworkID q = net) (cloud_ports c)), c)),
      ports_Create = cloud_create_port,
      ports_Get = cloud_get_port,
      ports_Delete = cloud_delete_port,
      trunks_List =
        (\<lambda>name p c.
           (Listed (filter (\<lambda>q. Trunk_PortID q = p \<and> (name = [] \<or> Trunk_Name q = name))
                      (cloud_trunks c)), c)),
      trunks_Create = cloud_create_trunk,
      trunks_Delete = cloud_delete_trunk,
      attributestags_ReplaceAll = (\<lambda>kind tr tags c. (Inr tags, c)),
      flavors_IDFromName = (\<lambda>name c. (Inr (''flavor-'' @ name), c)),
      servers_Create = (\<lambda>opts c. (Inl (BackendErr OtherC ''quota''), c)),
      servers_Get = (\<lambda>r c. (Inl (BackendErr NotFoundC ''server''), c)),
      servers_List = (\<lambda>name c. (Listed [], c)),
      servers_Delete = (\<lambda>r c. (None, c)),
      attachinterfaces_List =
        (\<lambda>r c. (Listed (map (\<lambda>q. \<lparr>Interface_PortID = Port_ID q,
                                    Interface_NetID = Port_NetworkID q\<rparr>) (cloud_ports c)), c)),
      attachinterfaces_Delete = (\<lambda>r p c. (None, c)),
      net_ParseIP = (\<lambda>a. True),
      NewProviderID = (\<lambda>p. Inr p)\<rparr>"

definition cloud0 :: "cloud world" where
  "cloud0 = \<lparr>st = \<lparr>cloud_ports = [], cloud_trunks = [], cloud_busy = 0\<rparr>, trace = []\<rparr>"

definition opts0 :: CreateOpts where
  "opts0 =
     \<lparr>CreateOpts_Name = ''m'', CreateOpts_ImageRef = [], CreateOpts_FlavorRef = [],
      CreateOpts_AvailabilityZone = [], CreateOpts_Networks = [], CreateOpts_UserData = [],
      CreateOpts_SecurityGroups = [], CreateOpts_Tags = [], CreateOpts_Metadata = Map.empty,
      CreateOpts_ConfigDrive = None, CreateOpts_AccessIPv4 = []\<rparr>"

definition volume0 :: RootVolume where
  "volume0 =
     \<lparr>RootVolume_SourceType = ''image'', RootVolume_SourceUUID = ''u-1'',
      RootVolume_DeviceType = ''disk'', RootVolume_Size = 0\<rparr>"

definition timeouts0 :: Timeouts where
  "timeouts0 =
     \<lparr>TimeoutInstanceCreate = 2, TimeoutTrunkDelete = 2, TimeoutPortDelete = 2,
      TimeoutInstanceDelete = 2\<rparr>"

section \<open>Traces\<close>

text \<open>
  \<open>issues P w w'\<close>: the trace of \<open>w'\<close> is the trace of \<open>w\<close> followed by calls that
  all satisfy \<open>P\<close>.
\<close>

definition issues :: "(call \<Rightarrow> bool) \<Rightarrow> 's world \<Rightarrow> 's world \<Rightarrow> bool" where
  "issues P w w' =
     (take (length (trace w)) (trace w') = trace w \<and>
      list_all (\<lambda>ev. P (fst ev)) (drop (length (trace w)) (trace w')))"

text \<open>A call that carries a tag list carries the list \<open>D\<close>.\<close>

fun tags_ok :: "string list \<Rightarrow> call \<Rightarrow> bool" where
  "tags_ok D (TagsReplaceAll kind tr tags) = (tags = D)"
| "tags_ok D (ServersCreate opts) = (CreateOpts_Tags (base_opts opts) = D)"
| "tags_ok D c = True"

text \<open>A cluster, a machine and a machine specification to run \<open>InstanceCreate\<close> on.\<close>

definition cluster0 :: OpenStackCluster where
  "cluster0 =
     \<lparr>OpenStackCluster_Tags = [''b'', ''c''],
      OpenStackCluster_ManagedSecurityGroups = False,
      OpenStackCluster_ControlPlaneSecurityGroup = None,
      OpenStackCluster_WorkerSecurityGroup = None,
      OpenStackCluster_Network =
        Some \<lparr>Network_ID = ''net-1'', Network_Subnet = Some \<lparr>Subnet_ID = ''subnet-1''\<rparr>\<rparr>\<rparr>"

definition machine0 :: Machine where
  "machine0 =
     \<lparr>Machine_FailureDomain = Some ''az-1'', Machine_ProviderID = None,
      Machine_IsControlPlane = False\<rparr>"

definition osm0 :: OpenStackMachine where
  "osm0 =
     \<lparr>OpenStackMachine_Name = ''node-1'',
      OpenStackMachine_Image = ''ubuntu'',
      OpenStackMachine_Flavor = ''small'',
      OpenStackMachine_SSHKeyName = ''key'',
      OpenStackMachine_ServerMetadata = Map.empty,
      OpenStackMachine_ConfigDrive = None,
      OpenStackMachine_RootVolume = None,
      OpenStackMachine_Subnet = [],
      OpenStackMachine_Trunk = True,
      OpenStackMachine_Tags = [''a'', ''b'', ''a''],
      OpenStackMachine_SecurityGroups = [],
      OpenStackMachine_Networks = []\<rparr>"

text \<open>A server that is up, with no addresses.\<close>

definition server_named :: "string \<Rightarrow> string \<Rightarrow> Server" where
  "server_named ident name =
     \<lparr>Server_ID = ident, Server_Name = name, Server_KeyName = ''key'',
      Server_Status = ''ACTIVE'', Server_AccessIPv4 = [], Server_Addresses = []\<rparr>"

text \<open>
  A network attachment whose filter names a network that is not there; a backend that
  finds every network but that one, creates the server it is asked for and reports it
  active; and a machine specification that asks for a good attachment and then for the
  missing one.
\<close>

definition param0 :: NetworkParam where
  "param0 =
     \<lparr>NetworkParam_UUID = [],
      NetworkParam_Filter =
        \<lparr>NetworkFilter_ID = [], NetworkFilter_Name = ''no-such-net'', NetworkFilter_ProjectID = []\<rparr>,
      NetworkParam_Subnets = None\<rparr>"

definition picky_Service :: "cloud Service" where
  "picky_Service =
     cloud_Service
       \<lparr>networks_List := \<lambda>opts c.
          (Listed (if NetworkFilter_Name opts = ''no-such-net'' then []
                   else [NetworkFilter_ID opts]), c),
        servers_Create := \<lambda>opts c.
          (Inr (server_named ''srv-1'' (CreateOpts_Name (base_opts opts))), c),
        servers_Get := \<lambda>r c. (Inr (server_named r ''node-1''), c)\<rparr>"

definition osm1 :: OpenStackMachine where
  "osm1 =
     osm0\<lparr>OpenStackMachine_Trunk := False,
          OpenStackMachine_Networks :=
            [\<lparr>NetworkParam_UUID = ''net-7'',
              NetworkParam_Filter =
                \<lparr>NetworkFilter_ID = [], NetworkFilter_Name = [], NetworkFilter_ProjectID = []\<rparr>,
              NetworkParam_Subnets =
                Some [\<lparr>SubnetParam_UUID = ''subnet-7'',
                       SubnetParam_Filter =
                         \<lparr>SubnetFilter_ID = [], SubnetFilter_Name = [],
                          SubnetFilter_NetworkID = [], SubnetFilter_ProjectID = []\<rparr>\<rparr>]\<rparr>,
             param0]\<rparr>"







text \<open>
  A descriptor with three attachments, two of them on the same network (two subnets of
  one network, as \<open>getServerNetworks\<close> lists them), and an access subnet that none of
  them is on.
\<close>

definition instance1 :: Instance where
  "instance1 =
     Instance_zero
       \<lparr>Instance_Name := ''node-1'',
        Instance_SecurityGroups := Some [],
        Instance_Networks :=
          Some [\<lparr>Network_ID = ''net-1'', Network_Subnet = Some \<lparr>Subnet_ID = ''subnet-a''\<rparr>\<rparr>,
                \<lparr>Network_ID = ''net-1'', Network_Subnet = Some \<lparr>Subnet_ID = ''subnet-b''\<rparr>\<rparr>,
                \<lparr>Network_ID = ''net-2'', Network_Subnet = Some \<lparr>Subnet_ID = ''subnet-c''\<rparr>\<rparr>],
        Instance_Subnet := ''subnet-x''\<rparr>"

section \<open>The shape of a teardown\<close>








section \<open>Properties of de-duplication\<close>

lemma set_keep_first: "set (keep_first xs) = set xs"
  by (induction xs rule: keep_first.induct) auto

lemma distinct_keep_first: "distinct (keep_first xs)"
  by (induction xs rule: keep_first.induct) (auto simp: set_keep_first)

lemma deduplicate_loop_keep_first:
  "dom seen = set unique \<Longrightarrow>
   deduplicate_loop xs unique seen = unique @ keep_first (filter (\<lambda>x. x \<notin> set unique) xs)"
proof (induction xs arbitrary: unique seen)
  case Nil
  then show ?case by simp
next
  case (Cons x xs)
  show ?case
  proof (cases "seen x")
    case None
    with Cons.prems have notin: "x \<notin> set unique" by (auto simp: domIff)
    have d: "dom (seen(x \<mapsto> True)) = set (unique @ [x])"
      using Cons.prems by auto
    have f: "filter (\<lambda>y. y \<notin> set (unique @ [x])) xs
               = removeAll x (filter (\<lambda>y. y \<notin> set unique) xs)"
      by (induction xs) auto
    have "deduplicate_loop (x # xs) unique seen
            = deduplicate_loop xs (unique @ [x]) (seen(x \<mapsto> True))"
      using None by simp
    also have "\<dots> = (unique @ [x]) @ keep_first (removeAll x (filter (\<lambda>y. y \<notin> set unique) xs))"
      unfolding Cons.IH [OF d] f ..
    also have "\<dots> = unique @ keep_first (filter (\<lambda>y. y \<notin> set unique) (x # xs))"
      using notin by simp
    finally show ?thesis .
  next
    case (Some ok)
    with Cons.prems have "x \<in> set unique" by (auto simp: domIff)
    with Some Cons.IH [OF Cons.prems] show ?thesis by simp
  qed
qed

lemma deduplicate_keep_first: "deduplicate xs = keep_first xs"
  by (simp add: deduplicate_def deduplicate_loop_keep_first)

section \<open>Reading an instance that is not there\<close>

text \<open>
  C5. For a non-empty resource id whose lookup fails, \<open>GetInstance\<close> issues that one
  lookup; when the failure is classified not-found it returns an absent instance with
  no error, and any other failure comes back wrapped in an error that names the server
  id.
\<close>

theorem GetInstance_lookup_failed:
  "resourceID \<noteq> [] \<Longrightarrow> servers_Get s resourceID (st w) = (Inl err, s') \<Longrightarrow>
   GetInstance s resourceID w =
     (if IsNotFound err then Inr None
      else Inl (Errorf ''get server %q detail failed: %v'' [ArgS resourceID, ArgE err]),
      \<lparr>st = s', trace = trace w @ [(ServersGet resourceID, Failed err)]\<rparr>)"
  by (simp add: GetInstance_def call_result_def)

theorem GetInstance_lookup_failed_witness:
  "GetInstance null_Service ''srv-1'' world0 =
     (Inr None,
      \<lparr>st = (), trace = [(ServersGet ''srv-1'', Failed (BackendErr NotFoundC ''server''))]\<rparr>) \<and>
   GetInstance (null_Service\<lparr>servers_Get := \<lambda>r c. (Inl (BackendErr OtherC ''boom''), c)\<rparr>)
       ''srv-1'' world0 =
     (Inl (Errorf ''get server %q detail failed: %v''
             [ArgS ''srv-1'', ArgE (BackendErr OtherC ''boom'')]),
      \<lparr>st = (), trace = [(ServersGet ''srv-1'', Failed (BackendErr OtherC ''boom''))]\<rparr>)"
  using GetInstance_lookup_failed
          [of "''srv-1''" null_Service world0 "BackendErr NotFoundC ''server''" "()"]
        GetInstance_lookup_failed
          [of "''srv-1''" "null_Service\<lparr>servers_Get := \<lambda>r c. (Inl (BackendErr OtherC ''boom''), c)\<rparr>"
              world0 "BackendErr OtherC ''boom''" "()"]
  by (simp add: null_Service_def world0_def)

section \<open>Deleting what was never created\<close>

text \<open>
  C6. When the machine records no provider id, \<open>InstanceDelete\<close> returns success and
  leaves the world as it was: the backend state is untouched and no call is added to the
  trace.
\<close>

theorem InstanceDelete_no_provider_id:
  "Machine_ProviderID machine = None \<Longrightarrow> InstanceDelete t s machine w = (None, w)"
  by (simp add: InstanceDelete_def)

theorem InstanceDelete_no_provider_id_witness:
  "InstanceDelete timeouts0 null_Service
     \<lparr>Machine_FailureDomain = None, Machine_ProviderID = None, Machine_IsControlPlane = False\<rparr>
     world0 = (None, world0)"
  using InstanceDelete_no_provider_id
          [of "\<lparr>Machine_FailureDomain = None, Machine_ProviderID = None,
                Machine_IsControlPlane = False\<rparr>" timeouts0 null_Service world0]
  by simp

section \<open>Teardown of an instance without interfaces\<close>

text \<open>
  C7. When the interface listing comes back empty, \<open>deleteInstance\<close> adds exactly two
  calls to the trace, the listing and the server delete, and returns what the server
  delete returned; no extension listing, no trunk call and no port call is made.
\<close>

theorem deleteInstance_no_interfaces:
  "attachinterfaces_List s serverID (st w) = (Listed [], s1) \<Longrightarrow>
   servers_Delete s serverID s1 = (r, s2) \<Longrightarrow>
   deleteInstance t s serverID w =
     (r, \<lparr>st = s2,
          trace = trace w @
            [(InterfacesList serverID, Found []),
             (ServersDelete serverID, case r of Some e \<Rightarrow> Failed e | None \<Rightarrow> Done)]\<rparr>)"
  by (simp add: deleteInstance_def call_listing_def call_err_def)

theorem deleteInstance_no_interfaces_witness:
  "deleteInstance timeouts0 null_Service ''srv-1'' world0 =
     (None, \<lparr>st = (), trace = [(InterfacesList ''srv-1'', Found []), (ServersDelete ''srv-1'', Done)]\<rparr>)"
  using deleteInstance_no_interfaces [of null_Service "''srv-1''" world0 "()" None "()" timeouts0]
  by (simp add: null_Service_def world0_def)

section \<open>Image resolution\<close>

text \<open>
  C8. \<open>getImageID\<close> on the empty name returns the empty reference with no error and
  without asking the backend. On a non-empty name whose listing succeeds, zero images
  give the not-found error, exactly one image gives its id, and more than one give the
  ambiguity error.
\<close>

theorem getImageID_cases:
  "getImageID s [] w = (Inr [], w) \<and>
   (imageName \<noteq> [] \<and> images_List s imageName (st w) = (Listed allImages, s') \<longrightarrow>
      fst (getImageID s imageName w) =
        (case allImages of
           [] \<Rightarrow> Inl (Errorf ''no image with the name %s could be found'' [ArgS imageName])
         | [img] \<Rightarrow> Inr (Image_ID img)
         | img # others \<Rightarrow>
             Inl (Errorf ''too many images with the name, %s, were found'' [ArgS imageName])))"
  by (simp add: getImageID_def call_listing_def split: list.splits)

theorem getImageID_cases_witness:
  "fst (getImageID null_Service ''ubuntu'' world0) =
     Inl (Errorf ''no image with the name %s could be found'' [ArgS ''ubuntu'']) \<and>
   fst (getImageID cloud_Service ''ubuntu'' cloud0) = Inr ''image-ubuntu'' \<and>
   fst (getImageID
          (null_Service\<lparr>images_List := \<lambda>name c.
             (Listed [\<lparr>Image_ID = ''1'', Image_Name = name\<rparr>,
                      \<lparr>Image_ID = ''2'', Image_Name = name\<rparr>], c)\<rparr>) ''ubuntu'' world0) =
     Inl (Errorf ''too many images with the name, %s, were found'' [ArgS ''ubuntu''])"
  using getImageID_cases [of null_Service world0 "''ubuntu''" "[]" "()"]
        getImageID_cases [of cloud_Service cloud0 "''ubuntu''"
                            "[\<lparr>Image_ID = ''image-ubuntu'', Image_Name = ''ubuntu''\<rparr>]" "st cloud0"]
        getImageID_cases
          [of "null_Service\<lparr>images_List := \<lambda>name c.
                 (Listed [\<lparr>Image_ID = ''1'', Image_Name = name\<rparr>,
                          \<lparr>Image_ID = ''2'', Image_Name = name\<rparr>], c)\<rparr>" world0 "''ubuntu''"
              "[\<lparr>Image_ID = ''1'', Image_Name = ''ubuntu''\<rparr>,
                \<lparr>Image_ID = ''2'', Image_Name = ''ubuntu''\<rparr>]" "()"]
  by (simp add: null_Service_def cloud_Service_def world0_def cloud0_def)

section \<open>The decorators of the create payload\<close>

text \<open>
  C9. \<open>applyRootVolume\<close> returns the builder it was given when the root volume is nil
  or of size zero, and otherwise wraps it with a single block device: that source type
  and source id, boot index 0, delete-on-termination, that size. \<open>applyServerGroupID\<close>
  returns the builder it was given when the group id is empty, and otherwise wraps it
  with that group as the scheduler hint. Applied one after the other as
  \<open>createInstance\<close> does, neither touches what the other adds, nor the base options.
\<close>

theorem decorators_independent:
  "applyRootVolume opts None = opts \<and>
   (RootVolume_Size rv = 0 \<longrightarrow> applyRootVolume opts (Some rv) = opts) \<and>
   (RootVolume_Size rv \<noteq> 0 \<longrightarrow>
      applyRootVolume opts (Some rv) =
        BootFromVolumeExt opts
          [\<lparr>BlockDevice_SourceType = RootVolume_SourceType rv,
            BlockDevice_BootIndex = 0,
            BlockDevice_UUID = RootVolume_SourceUUID rv,
            BlockDevice_DeleteOnTermination = True,
            BlockDevice_DestinationType = DestinationVolume,
            BlockDevice_VolumeSize = RootVolume_Size rv,
            BlockDevice_DeviceType = RootVolume_DeviceType rv\<rparr>]) \<and>
   applyServerGroupID opts [] = opts \<and>
   (g \<noteq> [] \<longrightarrow> applyServerGroupID opts g = SchedulerHintsExt opts g) \<and>
   base_opts (applyServerGroupID (applyRootVolume opts r) g) = base_opts opts \<and>
   block_devices (applyServerGroupID (applyRootVolume opts r) g)
     = block_devices (applyRootVolume opts r) \<and>
   scheduler_group (applyServerGroupID (applyRootVolume opts r) g)
     = scheduler_group (applyServerGroupID opts g)"
  by (auto simp: applyRootVolume_def applyServerGroupID_def split: option.splits)

theorem decorators_independent_witness:
  "applyServerGroupID (applyRootVolume (Base opts0) (Some (volume0\<lparr>RootVolume_Size := 10\<rparr>)))
     ''group-1'' =
   SchedulerHintsExt
     (BootFromVolumeExt (Base opts0)
        [\<lparr>BlockDevice_SourceType = ''image'', BlockDevice_BootIndex = 0,
          BlockDevice_UUID = ''u-1'', BlockDevice_DeleteOnTermination = True,
          BlockDevice_DestinationType = DestinationVolume, BlockDevice_VolumeSize = 10,
          BlockDevice_DeviceType = ''disk''\<rparr>]) ''group-1'' \<and>
   applyServerGroupID (applyRootVolume (Base opts0) (Some volume0)) [] = Base opts0"
  using decorators_independent
          [of "Base opts0" "volume0\<lparr>RootVolume_Size := 10\<rparr>" "''group-1''"]
        decorators_independent [of "Base opts0" volume0 "''group-1''"]
  by (simp add: volume0_def applyServerGroupID_def)

section \<open>Finding an instance by name\<close>








section \<open>What a run adds to the trace\<close>

lemma issues_iff:
  "issues P w w' \<longleftrightarrow> (\<exists>evs. trace w' = trace w @ evs \<and> list_all (\<lambda>ev. P (fst ev)) evs)"
  unfolding issues_def
proof
  assume a: "take (length (trace w)) (trace w') = trace w \<and>
             list_all (\<lambda>ev. P (fst ev)) (drop (length (trace w)) (trace w'))"
  have "trace w' = take (length (trace w)) (trace w') @ drop (length (trace w)) (trace w')"
    by simp
  with a show "\<exists>evs. trace w' = trace w @ evs \<and> list_all (\<lambda>ev. P (fst ev)) evs"
    by metis
next
  assume "\<exists>evs. trace w' = trace w @ evs \<and> list_all (\<lambda>ev. P (fst ev)) evs"
  then show "take (length (trace w)) (trace w') = trace w \<and>
             list_all (\<lambda>ev. P (fst ev)) (drop (length (trace w)) (trace w'))"
    by auto
qed

lemma issues_refl: "issues P w w"
  by (simp add: issues_iff)

lemma issues_trans: "issues P w w1 \<Longrightarrow> issues P w1 w2 \<Longrightarrow> issues P w w2"
  by (auto simp: issues_iff)

lemma issues_call_listing: "P c \<Longrightarrow> call_listing c ident f w = (r, w') \<Longrightarrow> issues P w w'"
  by (auto simp: issues_iff call_listing_def split: prod.splits)

lemma issues_call_result: "P c \<Longrightarrow> call_result c ident f w = (r, w') \<Longrightarrow> issues P w w'"
  by (auto simp: issues_iff call_result_def split: prod.splits)

lemma issues_call_tags: "P c \<Longrightarrow> call_tags c f w = (r, w') \<Longrightarrow> issues P w w'"
  by (auto simp: issues_iff call_tags_def split: prod.splits)

lemma issues_call_err: "P c \<Longrightarrow> call_err c f w = (r, w') \<Longrightarrow> issues P w w'"
  by (auto simp: issues_iff call_err_def split: prod.splits)

lemma issues_PollImmediate:
  assumes step: "\<And>x r x'. condition x = (r, x') \<Longrightarrow> issues P (proj x) (proj x')"
  shows "PollImmediate n condition x = (r, x') \<Longrightarrow> issues P (proj x) (proj x')"
proof (induction n arbitrary: x)
  case 0
  then show ?case
    by (auto split: prod.splits sum.splits if_splits dest: step)
next
  case (Suc n)
  show ?case
  proof (cases "condition x")
    case (Pair a x1)
    note s1 = step [OF Pair]
    show ?thesis
    proof (cases a)
      case (Inl e)
      with Pair Suc.prems s1 show ?thesis by simp
    next
      case (Inr d)
      show ?thesis
      proof (cases d)
        case True
        with Inr Pair Suc.prems s1 show ?thesis by simp
      next
        case False
        with Inr Pair Suc.prems have "PollImmediate n condition x1 = (r, x')" by simp
        from issues_trans [OF s1 Suc.IH [OF this]] show ?thesis .
      qed
    qed
  qed
qed

section \<open>The tags that reach the backend\<close>

lemma tags_getImageID: "getImageID s name w = (r, w') \<Longrightarrow> issues (tags_ok D) w w'"
  by (auto simp: getImageID_def issues_refl split: if_splits prod.splits listing.splits list.splits
           dest: issues_call_listing [where P = "tags_ok D", rotated])


lemma tags_createPort:
  "createPort s cn name net sgs w = (r, w') \<Longrightarrow> issues (tags_ok D) w w'"
  by (auto simp: createPort_def Let_def issues_refl split: option.splits prod.splits sum.splits
           dest: issues_call_result [where P = "tags_ok D", rotated])

lemma tags_createInstance_trunk:
  "Instance_Tags i = D \<Longrightarrow> createInstance_trunk s i port w = (r, w') \<Longrightarrow>
   issues (tags_ok D) w w'"
  unfolding createInstance_trunk_def
  by (auto split: prod.splits listing.splits list.splits sum.splits
           dest!: issues_call_result [where P = "tags_ok D", rotated]
                  issues_call_listing [where P = "tags_ok D", rotated]
                  issues_call_tags [where P = "tags_ok D", rotated]
           intro: issues_trans)

lemma tags_createInstance_loop:
  "Instance_Tags i = D \<Longrightarrow>
   createInstance_loop s cn i nets a ps w = (r, w') \<Longrightarrow> issues (tags_ok D) w w'"
proof (induction nets arbitrary: a ps w)
  case Nil
  then show ?case by (simp add: issues_refl)
next
  case (Cons network rest)
  show ?case
    using Cons.prems
    by (auto simp: issues_refl
             split: if_splits prod.splits listing.splits list.splits sum.splits option.splits
                    error.splits
             dest!: issues_call_listing [where P = "tags_ok D", rotated] tags_createPort [where D = D]
                    tags_createInstance_trunk [where D = D, rotated] Cons.IH [rotated]
             intro: issues_trans)
qed


lemma tags_deletePorts:
  "deletePorts s ps w = (r, w') \<Longrightarrow> issues (tags_ok D) w w'"
proof (induction ps arbitrary: w)
  case Nil
  then show ?case by (simp add: issues_refl)
next
  case (Cons n rest)
  show ?case
    using Cons.prems
    by (auto split: if_splits prod.splits option.splits
             dest!: issues_call_result [where P = "tags_ok D", rotated]
                    issues_call_err [where P = "tags_ok D", rotated] Cons.IH
             intro: issues_trans)
qed

lemma tags_GetInstance:
  "GetInstance s rid w = (r, w') \<Longrightarrow> issues (tags_ok D) w w'"
  by (auto simp: GetInstance_def issues_refl
           split: if_splits prod.splits sum.splits option.splits
           dest!: issues_call_result [where P = "tags_ok D", rotated])

lemma tags_createInstance_condition:
  "createInstance_condition s sid x = (r, x') \<Longrightarrow> issues (tags_ok D) (snd x) (snd x')"
  by (auto simp: createInstance_condition_def
           split: if_splits prod.splits sum.splits option.splits
           dest!: tags_GetInstance [where D = D])

lemma tags_createInstance_opts:
  "CreateOpts_Tags (base_opts (createInstance_opts i img fl ps sgs a)) = Instance_Tags i"
  by (simp add: createInstance_opts_def applyRootVolume_def applyServerGroupID_def
           split: option.splits)

lemma tags_createInstance_server:
  "Instance_Tags i = D \<Longrightarrow> createInstance_server t s i img a ps w = (r, w') \<Longrightarrow>
   issues (tags_ok D) w w'"
  unfolding createInstance_server_def Let_def
  by (auto simp: tags_createInstance_opts
           split: prod.splits sum.splits option.splits error.splits
           dest!: issues_call_result [where P = "tags_ok D", rotated] tags_deletePorts [where D = D]
                  issues_PollImmediate [where P = "tags_ok D" and proj = snd, rotated]
                  tags_createInstance_condition [where D = D]
           intro: issues_trans)

lemma tags_createInstance:
  "Instance_Tags i = D \<Longrightarrow> createInstance t s cn i w = (r, w') \<Longrightarrow> issues (tags_ok D) w w'"
  unfolding createInstance_def
  by (auto split: prod.splits sum.splits option.splits if_splits
           dest!: tags_getImageID [where D = D] tags_deletePorts [where D = D]
                  tags_createInstance_loop [where D = D, rotated]
                  tags_createInstance_server [where D = D, rotated]
           intro: issues_trans)


lemma tags_getTrunkSupport:
  "getTrunkSupport s w = (r, w') \<Longrightarrow> issues (tags_ok D) w w'"
  by (auto simp: getTrunkSupport_def split: prod.splits listing.splits
           dest!: issues_call_listing [where P = "tags_ok D", rotated])

lemma tags_getSecurityGroups_loop:
  "getSecurityGroups_loop s params ids w = (r, w') \<Longrightarrow> issues (tags_ok D) w w'"
proof (induction params arbitrary: ids w)
  case Nil
  then show ?case by (simp add: issues_refl)
next
  case (Cons sg rest)
  show ?case
    using Cons.prems
    by (auto split: if_splits prod.splits listing.splits
             dest!: issues_call_listing [where P = "tags_ok D", rotated] Cons.IH
             intro: issues_trans)
qed

lemma tags_GetNetworkIDsByFilter:
  "GetNetworkIDsByFilter s opts w = (r, w') \<Longrightarrow> issues (tags_ok D) w w'"
  by (auto simp: GetNetworkIDsByFilter_def split: prod.splits listing.splits if_splits
           dest!: issues_call_listing [where P = "tags_ok D", rotated])

lemma tags_GetSubnetsByFilter:
  "GetSubnetsByFilter s opts w = (r, w') \<Longrightarrow> issues (tags_ok D) w w'"
  by (auto simp: GetSubnetsByFilter_def split: prod.splits listing.splits
           dest!: issues_call_listing [where P = "tags_ok D", rotated])

lemma tags_getServerNetworks_subnets:
  "getServerNetworks_subnets s netID subnets nets w = (r, w') \<Longrightarrow> issues (tags_ok D) w w'"
proof (induction subnets arbitrary: nets w)
  case Nil
  then show ?case by (simp add: issues_refl)
next
  case (Cons subnet rest)
  show ?case
    using Cons.prems
    by (auto split: prod.splits sum.splits
             dest!: tags_GetSubnetsByFilter [where D = D] Cons.IH
             intro: issues_trans)
qed

lemma tags_getServerNetworks_ids:
  "getServerNetworks_ids s param ids nets w = (r, w') \<Longrightarrow> issues (tags_ok D) w w'"
proof (induction ids arbitrary: nets w)
  case Nil
  then show ?case by (simp add: issues_refl)
next
  case (Cons netID rest)
  show ?case
    using Cons.prems
    by (auto split: prod.splits sum.splits option.splits
             dest!: tags_getServerNetworks_subnets [where D = D] Cons.IH
             intro: issues_trans)
qed

lemma tags_getServerNetworks_loop:
  "getServerNetworks_loop s params nets w = (r, w') \<Longrightarrow> issues (tags_ok D) w w'"
proof (induction params arbitrary: nets w)
  case Nil
  then show ?case by (simp add: issues_refl)
next
  case (Cons param rest)
  show ?case
    using Cons.prems
    by (auto split: prod.splits sum.splits
             dest!: tags_GetNetworkIDsByFilter [where D = D]
                    tags_getServerNetworks_ids [where D = D] Cons.IH
             intro: issues_trans)
qed

lemma tags_InstanceCreate_trunk:
  "InstanceCreate_trunk s osm input w = (r, w') \<Longrightarrow> issues (tags_ok D) w w'"
  by (auto simp: InstanceCreate_trunk_def issues_refl split: if_splits prod.splits sum.splits
           dest!: tags_getTrunkSupport [where D = D])

lemma tags_InstanceCreate_networks:
  "InstanceCreate_networks s c osm w = (r, w') \<Longrightarrow> issues (tags_ok D) w w'"
  by (auto simp: InstanceCreate_networks_def getServerNetworks_def issues_refl
           split: if_splits option.splits
           dest!: tags_getServerNetworks_loop [where D = D])

lemma tags_InstanceCreate:
  "InstanceCreate t s c m (Some osm) cn ud w = (r, w') \<Longrightarrow>
   D = deduplicate (OpenStackMachine_Tags osm @ OpenStackCluster_Tags c) \<Longrightarrow>
   issues (tags_ok D) w w'"
  unfolding InstanceCreate_def Let_def getSecurityGroups_def
  by (auto simp: issues_refl split: prod.splits sum.splits option.splits
           dest!: tags_InstanceCreate_trunk [where D = D]
                  tags_getSecurityGroups_loop [where D = D]
                  tags_InstanceCreate_networks [where D = D]
                  tags_createInstance [where D = D, rotated]
           intro: issues_trans)

text \<open>
  C4. \<open>deduplicate\<close> keeps the first occurrence of every string, in order, and drops
  the later ones; its result has no duplicates and the same elements, and
  \<open>["a","b","a"]\<close> becomes \<open>["a","b"]\<close>. Every call that \<open>InstanceCreate\<close> issues
  with a tag list (the server creation and the tagging of a trunk) carries the
  de-duplicated concatenation of the machine's tags and the cluster's tags.
\<close>

theorem tags_deduplicated:
  "deduplicate xs = keep_first xs \<and> distinct (deduplicate xs) \<and>
   set (deduplicate xs) = set xs \<and>
   deduplicate [''a'', ''b'', ''a''] = [''a'', ''b''] \<and>
   issues (tags_ok (deduplicate (OpenStackMachine_Tags osm @ OpenStackCluster_Tags c))) w
     (snd (InstanceCreate t s c m (Some osm) cn ud w))"
proof -
  have "issues (tags_ok (deduplicate (OpenStackMachine_Tags osm @ OpenStackCluster_Tags c))) w
          (snd (InstanceCreate t s c m (Some osm) cn ud w))"
    by (rule tags_InstanceCreate [OF surjective_pairing refl])
  moreover have "deduplicate [''a'', ''b'', ''a''] = [''a'', ''b'']"
    by (simp add: deduplicate_def)
  ultimately show ?thesis
    by (simp add: deduplicate_keep_first distinct_keep_first set_keep_first)
qed

lemma run0_calls:
  "map fst (trace (snd (InstanceCreate timeouts0 cloud_Service cluster0 machine0 (Some osm0)
                          ''c1'' ''ud'' cloud0))) =
     [ExtensionsList, ImagesList ''ubuntu'', PortsList ''node-1'' ''net-1'',
      PortsCreate
        \<lparr>PortCreateOpts_Name = ''node-1'', PortCreateOpts_NetworkID = ''net-1'',
         PortCreateOpts_SecurityGroups = Some [],
         PortCreateOpts_Description = ''Created by cluster-api-provider-openstack cluster c1'',
         PortCreateOpts_FixedIPs = [\<lparr>IP_SubnetID = ''subnet-1'', IP_IPAddress = []\<rparr>]\<rparr>,
      TrunksList ''node-1'' ''port-net-1'', TrunksCreate ''node-1'' ''port-net-1'',
      TagsReplaceAll ''trunks'' ''trunk-port-net-1'' [''a'', ''b'', ''c''],
      FlavorsIDFromName ''small'',
      ServersCreate
        (KeypairExt
           (Base \<lparr>CreateOpts_Name = ''node-1'', CreateOpts_ImageRef = ''image-ubuntu'',
                  CreateOpts_FlavorRef = ''flavor-small'', CreateOpts_AvailabilityZone = ''az-1'',
                  CreateOpts_Networks = [\<lparr>ServerNetwork_Port = ''port-net-1''\<rparr>],
                  CreateOpts_UserData = ''ud'', CreateOpts_SecurityGroups = [],
                  CreateOpts_Tags = [''a'', ''b'', ''c''], CreateOpts_Metadata = Map.empty,
                  CreateOpts_ConfigDrive = None, CreateOpts_AccessIPv4 = []\<rparr>) ''key''),
      PortsGet ''port-net-1'', PortsDelete ''port-net-1'']"
  by (simp add: InstanceCreate_def InstanceCreate_input_def InstanceCreate_trunk_def
       InstanceCreate_managedGroups_def InstanceCreate_networks_def getSecurityGroups_def
       getTrunkSupport_def createInstance_def createInstance_server_def createInstance_trunk_def
       createInstance_opts_def createPort_def getImageID_def
       call_listing_def call_result_def call_tags_def call_err_def
       cloud_Service_def cloud0_def cluster0_def machine0_def osm0_def timeouts0_def
       cloud_create_port_def cloud_create_trunk_def cloud_get_port_def cloud_delete_port_def
       deduplicate_def Instance_zero_def Let_def applyRootVolume_def applyServerGroupID_def)

theorem tags_deduplicated_witness:
  "deduplicate [''a'', ''b'', ''a'', ''b'', ''c''] = [''a'', ''b'', ''c''] \<and>
   issues (tags_ok [''a'', ''b'', ''c'']) cloud0
     (snd (InstanceCreate timeouts0 cloud_Service cluster0 machine0 (Some osm0) ''c1'' ''ud'' cloud0)) \<and>
   TagsReplaceAll ''trunks'' ''trunk-port-net-1'' [''a'', ''b'', ''c'']
     \<in> set (map fst (trace (snd (InstanceCreate timeouts0 cloud_Service cluster0 machine0
                                     (Some osm0) ''c1'' ''ud'' cloud0))))"
  using tags_deduplicated
          [of "[''a'', ''b'', ''a'', ''b'', ''c'']" osm0 cluster0 cloud0 timeouts0 cloud_Service
              machine0 "''c1''" "''ud''"]
  by (simp add: run0_calls) (simp add: osm0_def cluster0_def deduplicate_def)

section \<open>An attachment that resolves to no network\<close>

text \<open>What \<open>getServerNetworks\<close> does with an attachment for which the locator finds nothing.\<close>

lemma getServerNetworks_loop_unmatched:
  "networks_List s (getServerNetworks_opts p) (st w) = (Listed [], c') \<Longrightarrow>
   getServerNetworks_loop s (p # rest) nets w =
     getServerNetworks_loop s rest nets
       \<lparr>st = c', trace = trace w @ [(NetworksList (getServerNetworks_opts p), Found [])]\<rparr>"
  by (simp add: GetNetworkIDsByFilter_def call_listing_def)

text \<open>
  C2. A run of \<open>InstanceCreate\<close> for a machine with two network attachments, the
  second with a filter that matches no network. The locator answers with no id and no
  error, the loop over the ids has nothing to do, and \<open>getServerNetworks\<close> returns the
  first attachment's network alone, with no error. \<open>InstanceCreate\<close> goes on: it
  creates one port and the server, on that one network, and returns the instance. The
  missing attachment is reported nowhere; the check in \<open>createInstance\<close> for a
  network that was not found looks at the id of each entry of the list, and there is
  no entry for it.
\<close>

theorem unmatched_attachment_is_dropped:
  "getServerNetworks picky_Service (OpenStackMachine_Networks osm1) cloud0 =
     (Inr [\<lparr>Network_ID = ''net-7'', Network_Subnet = Some \<lparr>Subnet_ID = ''subnet-7''\<rparr>\<rparr>],
      \<lparr>st = st cloud0,
       trace =
         [(NetworksList \<lparr>NetworkFilter_ID = ''net-7'', NetworkFilter_Name = [],
                         NetworkFilter_ProjectID = []\<rparr>, Found [''net-7'']),
          (SubnetsList \<lparr>SubnetFilter_ID = ''subnet-7'', SubnetFilter_Name = [],
                        SubnetFilter_NetworkID = ''net-7'', SubnetFilter_ProjectID = []\<rparr>,
           Found [''subnet-7'']),
          (NetworksList \<lparr>NetworkFilter_ID = [], NetworkFilter_Name = ''no-such-net'',
                         NetworkFilter_ProjectID = []\<rparr>, Found [])]\<rparr>) \<and>
   fst (InstanceCreate timeouts0 picky_Service cluster0 machine0 (Some osm1) ''c1'' ''ud'' cloud0) =
     Inr (Some (Instance_zero
                  \<lparr>Instance_ID := ''srv-1'', Instance_Name := ''node-1'',
                   Instance_SSHKeyName := ''key'', Instance_State := ''ACTIVE''\<rparr>)) \<and>
   map fst (trace (snd (InstanceCreate timeouts0 picky_Service cluster0 machine0 (Some osm1)
                          ''c1'' ''ud'' cloud0))) =
     [NetworksList \<lparr>NetworkFilter_ID = ''net-7'', NetworkFilter_Name = [],
                    NetworkFilter_ProjectID = []\<rparr>,
      SubnetsList \<lparr>SubnetFilter_ID = ''subnet-7'', SubnetFilter_Name = [],
                   SubnetFilter_NetworkID = ''net-7'', SubnetFilter_ProjectID = []\<rparr>,
      NetworksList \<lparr>NetworkFilter_ID = [], NetworkFilter_Name = ''no-such-net'',
                    NetworkFilter_ProjectID = []\<rparr>,
      ImagesList ''ubuntu'',
      PortsList ''node-1'' ''net-7'',
      PortsCreate
        \<lparr>PortCreateOpts_Name = ''node-1'', PortCreateOpts_NetworkID = ''net-7'',
         PortCreateOpts_SecurityGroups = Some [],
         PortCreateOpts_Description = ''Created by cluster-api-provider-openstack cluster c1'',
         PortCreateOpts_FixedIPs = [\<lparr>IP_SubnetID = ''subnet-7'', IP_IPAddress = []\<rparr>]\<rparr>,
      FlavorsIDFromName ''small'',
      ServersCreate
        (KeypairExt
           (Base \<lparr>CreateOpts_Name = ''node-1'', CreateOpts_ImageRef = ''image-ubuntu'',
                  CreateOpts_FlavorRef = ''flavor-small'', CreateOpts_AvailabilityZone = ''az-1'',
                  CreateOpts_Networks = [\<lparr>ServerNetwork_Port = ''port-net-7''\<rparr>],
                  CreateOpts_UserData = ''ud'', CreateOpts_SecurityGroups = [],
                  CreateOpts_Tags = [''a'', ''b'', ''c''], CreateOpts_Metadata = Map.empty,
                  CreateOpts_ConfigDrive = None, CreateOpts_AccessIPv4 = []\<rparr>) ''key''),
      ServersGet ''srv-1'']"
  by (simp add: InstanceCreate_def InstanceCreate_input_def InstanceCreate_trunk_def
        InstanceCreate_managedGroups_def InstanceCreate_networks_def getSecurityGroups_def
        getServerNetworks_def getServerNetworks_opts_def getServerNetworks_subnetOpts_def
        GetNetworkIDsByFilter_def GetSubnetsByFilter_def
        createInstance_def createInstance_server_def createInstance_condition_def
        createInstance_opts_def createPort_def getImageID_def GetInstance_def
        serverToInstance_def GetIPFromInstance_def lookup_addr_def InstanceStateActive_def
        call_listing_def call_result_def call_tags_def call_err_def
        picky_Service_def cloud_Service_def cloud0_def cluster0_def machine0_def osm0_def
        osm1_def param0_def timeouts0_def server_named_def cloud_create_port_def
        deduplicate_def Instance_zero_def Let_def applyRootVolume_def applyServerGroupID_def
        numeral_2_eq_2)

section \<open>Cleaning up ports when no port is on the access subnet\<close>

text \<open>
  C1. A run of \<open>createInstance\<close> in which no port yields a fixed IP on the requested
  access subnet. The first two attachments share a network, so the second reuses the
  port the first created and the port list holds that port twice. The cleanup deletes
  it, finds it gone at the second entry and returns at once with no error: the port
  created for the third attachment is still there, and the error returned is the plain
  one, with no word of the cleanup.
\<close>

theorem createInstance_cleanup_stops_early:
  "createInstance timeouts0 cloud_Service ''c1'' instance1 cloud0 =
     (Inl (Errorf ''no ports with fixed IPs found on Subnet %q'' [ArgS ''subnet-x'']),
      \<lparr>st = \<lparr>cloud_ports =
                [\<lparr>Port_ID = ''port-net-2'', Port_Name = ''node-1'', Port_NetworkID = ''net-2'',
                  Port_FixedIPs = [\<lparr>IP_SubnetID = ''subnet-c'', IP_IPAddress = ''10.0.0.1''\<rparr>]\<rparr>],
              cloud_trunks = [], cloud_busy = 0\<rparr>,
       trace =
         [(PortsList ''node-1'' ''net-1'', Found []),
          (PortsCreate
             \<lparr>PortCreateOpts_Name = ''node-1'', PortCreateOpts_NetworkID = ''net-1'',
              PortCreateOpts_SecurityGroups = Some [],
              PortCreateOpts_Description = ''Created by cluster-api-provider-openstack cluster c1'',
              PortCreateOpts_FixedIPs = [\<lparr>IP_SubnetID = ''subnet-a'', IP_IPAddress = []\<rparr>]\<rparr>,
           Found [''port-net-1'']),
          (PortsList ''node-1'' ''net-1'', Found [''port-net-1'']),
          (PortsList ''node-1'' ''net-2'', Found []),
          (PortsCreate
             \<lparr>PortCreateOpts_Name = ''node-1'', PortCreateOpts_NetworkID = ''net-2'',
              PortCreateOpts_SecurityGroups = Some [],
              PortCreateOpts_Description = ''Created by cluster-api-provider-openstack cluster c1'',
              PortCreateOpts_FixedIPs = [\<lparr>IP_SubnetID = ''subnet-c'', IP_IPAddress = []\<rparr>]\<rparr>,
           Found [''port-net-2'']),
          (PortsGet ''port-net-1'', Found [''port-net-1'']),
          (PortsDelete ''port-net-1'', Done),
          (PortsGet ''port-net-1'', Failed (BackendErr NotFoundC ''port''))]\<rparr>)"
  by (simp add: createInstance_def createInstance_server_def createInstance_trunk_def
        createPort_def getImageID_def call_listing_def call_result_def call_err_def
        cloud_Service_def cloud0_def instance1_def timeouts0_def
        cloud_create_port_def cloud_get_port_def cloud_delete_port_def
        Instance_zero_def Let_def)


section \<open>The order of a teardown\<close>



















end
